theory Spec2Isabelle
  imports Complex_Main "HOL-Library.Monad_Syntax"
begin

chapter \<open>The monitor, embedded\<close>

section \<open>Python built-ins used by the monitor\<close>

text \<open>
  Strings are lists of 8-bit characters; the log lines the monitor reads are ASCII.
  Python floats are modelled by exact rationals: the arithmetic the monitor performs on them
  (one division, one multiplication by 100, comparisons with zero, truncation to an integer)
  is written with exact operations, binary64 rounding is not part of the model.
\<close>

datatype error = ValueError | TypeError | AttributeError

type_synonym pyfloat = rat

definition py_isspace :: "char \<Rightarrow> bool" where
  "py_isspace c = (c \<in> set [CHR 0x09, CHR 0x0A, CHR 0x0B, CHR 0x0C, CHR 0x0D,
                              CHR 0x1C, CHR 0x1D, CHR 0x1E, CHR 0x1F, CHR 0x20])"

definition strip :: "string \<Rightarrow> string" where
  "strip s = rev (dropWhile py_isspace (rev (dropWhile py_isspace s)))"

definition lower_char :: "char \<Rightarrow> char" where
  "lower_char c =
     (case map_of (zip ''ABCDEFGHIJKLMNOPQRSTUVWXYZ'' ''abcdefghijklmnopqrstuvwxyz'') c of
        Some l \<Rightarrow> l
      | None \<Rightarrow> c)"

definition lower :: "string \<Rightarrow> string" where
  "lower s = map lower_char s"

definition startswith :: "string \<Rightarrow> string \<Rightarrow> bool" where
  "startswith s p = (take (length p) s = p)"

definition endswith :: "string \<Rightarrow> string \<Rightarrow> bool" where
  "endswith s p = (length p \<le> length s \<and> drop (length s - length p) s = p)"

definition is_decdigit :: "char \<Rightarrow> bool" where
  "is_decdigit c = (c \<in> set ''0123456789'')"

definition is_hexdigit :: "char \<Rightarrow> bool" where
  "is_hexdigit c = (c \<in> set ''0123456789abcdefABCDEF'')"

text \<open>\<^verbatim>\<open>str.isdigit()\<close> on an ASCII string: non-empty and decimal digits only.\<close>

definition isdigit :: "string \<Rightarrow> bool" where
  "isdigit s = (s \<noteq> [] \<and> list_all is_decdigit s)"

text \<open>The value of a character as a digit of \<^verbatim>\<open>int(s, base)\<close>: letters count from 10, in
  either case.\<close>

fun index_of :: "char \<Rightarrow> string \<Rightarrow> nat option" where
  "index_of c [] = None"
| "index_of c (x # xs) = (if c = x then Some 0 else map_option Suc (index_of c xs))"

definition digit_of :: "char \<Rightarrow> nat option" where
  "digit_of c =
     (case index_of c ''0123456789abcdefghijklmnopqrstuvwxyz'' of
        Some d \<Rightarrow> Some d
      | None \<Rightarrow> map_option (\<lambda>i. i + 10) (index_of c ''ABCDEFGHIJKLMNOPQRSTUVWXYZ''))"

fun digits_value :: "nat \<Rightarrow> string \<Rightarrow> nat \<Rightarrow> nat option" where
  "digits_value b [] acc = Some acc"
| "digits_value b (c # cs) acc =
     (case digit_of c of
        None \<Rightarrow> None
      | Some d \<Rightarrow> if d < b then digits_value b cs (acc * b + d) else None)"

text \<open>
  \<^verbatim>\<open>int(s, base)\<close> for base 10 and base 16 on strings of ASCII letters and digits: the digits
  are read left to right, base 16 accepts a leading \<^verbatim>\<open>0x\<close>, an empty digit sequence or a
  character that is no digit of the base raises \<^verbatim>\<open>ValueError\<close>. (Python also accepts a sign,
  surrounding blanks and underscores between digits; no caller in the monitor passes such
  text, and the model does not cover it.)
\<close>

definition py_int :: "nat \<Rightarrow> string \<Rightarrow> error + int" where
  "py_int b s =
     (let body = (if b = 16 \<and> (startswith s ''0x'' \<or> startswith s ''0X'') then drop 2 s else s)
      in if body = [] then Inl ValueError
         else (case digits_value b body 0 of
                 None \<Rightarrow> Inl ValueError
               | Some n \<Rightarrow> Inr (int n)))"

section \<open>Device identifiers\<close>

definition parse_rnti :: "string \<Rightarrow> error + int" where
  "parse_rnti rnti_str =
     (let s = lower (strip rnti_str);
          s = (if startswith s ''0x'' then drop 2 s else s)
      in if isdigit s then py_int 10 s else py_int 16 s)"



section \<open>Per-device state\<close>

text \<open>
  The dictionaries of \<^verbatim>\<open>_init_ue\<close> have a fixed set of keys, so they are records. The keys the
  downlink and the uplink dictionary share form the record \<open>side\<close>, which both extend;
  \<^verbatim>\<open>_update_pkt_stats\<close> works on either.
\<close>

record side =
  ri :: "int option"
  mcs :: "int option"
  a :: int
  errors :: int
  packets_ok :: int
  packets_nok :: int
  drop_rate :: pyfloat
  last_t_ms :: "int option"
  bitrate :: pyfloat

record dl_side = side +
  cqi :: "int option"
  total_bytes :: int
  last_total_bytes :: "int option"
  buffer_status :: int

record ul_side = side +
  snr :: "pyfloat option"
  total_bytes_rx :: int
  last_total_bytes_rx :: "int option"
  bsr :: int
  timing_advance :: int

record ue_state =
  rnti :: int
  pci :: int
  sync :: "string option"
  phr :: "pyfloat option"
  pcmax :: "pyfloat option"
  rsrp :: "pyfloat option"
  ssb_sinr :: "pyfloat option"
  dl :: dl_side
  ul :: ul_side

definition init_ue :: "int \<Rightarrow> ue_state" where
  "init_ue r =
     \<lparr> rnti = r, pci = 0, sync = None, phr = None, pcmax = None, rsrp = None, ssb_sinr = None,
       dl = \<lparr> ri = None, mcs = None, a = 0, errors = 0, packets_ok = 0, packets_nok = 0,
              drop_rate = 0, last_t_ms = None, bitrate = 4000000,
              cqi = None, total_bytes = 0, last_total_bytes = None, buffer_status = 0 \<rparr>,
       ul = \<lparr> ri = None, mcs = None, a = 0, errors = 0, packets_ok = 0, packets_nok = 0,
              drop_rate = 0, last_t_ms = None, bitrate = 0,
              snr = None, total_bytes_rx = 0, last_total_bytes_rx = None, bsr = 0,
              timing_advance = 0 \<rparr> \<rparr>"

definition update_pkt_stats :: "'x side_scheme \<Rightarrow> 'x side_scheme" where
  "update_pkt_stats sd =
     (let n = a sd;
          errs = errors sd;
          ok = max 0 (n - errs)
      in sd\<lparr> packets_ok := ok,
             packets_nok := errs,
             drop_rate := (if n > 0 then of_int errs / of_int n * 100 else 0) \<rparr>)"

section \<open>Snapshots\<close>

text \<open>The values a snapshot holds and \<^verbatim>\<open>json.dumps\<close> serialises. A dictionary keeps its
  keys in insertion order.\<close>

datatype json =
    JNone
  | JInt int
  | JFloat pyfloat
  | JStr string
  | JList "json list"
  | JDict "(string \<times> json) list"

text \<open>Python truthiness, and \<^verbatim>\<open>x or y\<close>.\<close>

fun truthy :: "json \<Rightarrow> bool" where
  "truthy JNone = False"
| "truthy (JInt i) = (i \<noteq> 0)"
| "truthy (JFloat x) = (x \<noteq> 0)"
| "truthy (JStr s) = (s \<noteq> [])"
| "truthy (JList xs) = (xs \<noteq> [])"
| "truthy (JDict kvs) = (kvs \<noteq> [])"

definition py_or :: "json \<Rightarrow> json \<Rightarrow> json" where
  "py_or x y = (if truthy x then x else y)"

text \<open>\<^verbatim>\<open>d.get(k, default)\<close>; every receiver in the monitor is a dictionary.\<close>

fun dict_get :: "json \<Rightarrow> string \<Rightarrow> json \<Rightarrow> json" where
  "dict_get (JDict kvs) k d = (case map_of kvs k of Some v \<Rightarrow> v | None \<Rightarrow> d)"
| "dict_get _ k d = d"

text \<open>The same operators on the typed fields of the device state: \<^verbatim>\<open>x or d\<close> on a number
  that may be \<^verbatim>\<open>None\<close>, \<^verbatim>\<open>x if x is not None else d\<close>, and \<^verbatim>\<open>int(x)\<close> on a float, which
  truncates towards zero.\<close>

definition num_or :: "'n::zero \<Rightarrow> 'n \<Rightarrow> 'n" where
  "num_or x d = (if x \<noteq> 0 then x else d)"

definition opt_or :: "'n::zero option \<Rightarrow> 'n \<Rightarrow> 'n" where
  "opt_or x d = (case x of None \<Rightarrow> d | Some v \<Rightarrow> num_or v d)"

definition if_not_none :: "'n option \<Rightarrow> 'n \<Rightarrow> 'n" where
  "if_not_none x d = (case x of None \<Rightarrow> d | Some v \<Rightarrow> v)"

definition int_of_float :: "pyfloat \<Rightarrow> int" where
  "int_of_float x = (if x \<ge> 0 then \<lfloor>x\<rfloor> else - \<lfloor>- x\<rfloor>)"

text \<open>The payload \<^verbatim>\<open>_emit_snapshot\<close> builds, for the timestamp read and the configured source
  label.\<close>

definition snapshot_ue :: "ue_state \<Rightarrow> json" where
  "snapshot_ue ue =
     JDict [
       (''pci'', JInt (num_or (pci ue) 0)),
       (''rnti'', JInt (rnti ue)),
       (''downlink'', JDict [
          (''cqi'', JInt (if_not_none (cqi (dl ue)) 0)),
          (''ri'', JInt (if_not_none (ri (dl ue)) 0)),
          (''mcs'', JInt (if_not_none (mcs (dl ue)) 0)),
          (''bitrate'', JInt (int_of_float (num_or (bitrate (dl ue)) 0))),
          (''packets_ok'', JInt (num_or (packets_ok (dl ue)) 0)),
          (''packets_nok'', JInt (num_or (packets_nok (dl ue)) 0)),
          (''drop_rate'', JFloat (num_or (drop_rate (dl ue)) 0)),
          (''buffer_status'', JInt (num_or (buffer_status (dl ue)) 0))]),
       (''uplink'', JDict [
          (''pusch_sinr'', JFloat (opt_or (snr (ul ue)) 0)),
          (''rsrp'', JFloat (opt_or (rsrp ue) 0)),
          (''ri'', JInt (if_not_none (ri (ul ue)) 0)),
          (''mcs'', JInt (if_not_none (mcs (ul ue)) 0)),
          (''bitrate'', JInt (int_of_float (num_or (bitrate (ul ue)) 0))),
          (''packets_ok'', JInt (num_or (packets_ok (ul ue)) 0)),
          (''packets_nok'', JInt (num_or (packets_nok (ul ue)) 0)),
          (''drop_rate'', JFloat (num_or (drop_rate (ul ue)) 0)),
          (''bsr'', JInt (num_or (bsr (ul ue)) 0)),
          (''timing_advance'', JInt (num_or (timing_advance (ul ue)) 0)),
          (''phr'', JFloat (opt_or (phr ue) 0))])]"

definition snapshot_payload :: "int \<Rightarrow> string \<Rightarrow> ue_state \<Rightarrow> json" where
  "snapshot_payload ts src ue =
     JDict [(''timestamp'', JInt ts), (''source'', JStr src), (''ues'', JList [snapshot_ue ue])]"

section \<open>Configuration, environment and global state\<close>

text \<open>
  The module-level settings that \<^verbatim>\<open>__main__\<close> fixes before the first line is read.
  \<open>csv_enabled\<close> says that \<^verbatim>\<open>_CSV_WRITER\<close> is set.
\<close>

record config =
  post_url :: "string option"
  post_timeout :: pyfloat
  max_retries :: int
  send_interval :: pyfloat
  one_at_a_time :: bool
  send_order :: string
  source :: string
  csv_enabled :: bool

text \<open>One HTTP request as \<^verbatim>\<open>_http_post_json\<close> issues it. The body is kept as the object
  that \<^verbatim>\<open>json.dumps\<close> serialises.\<close>

record request =
  req_method :: string
  req_url :: string
  req_data :: json
  req_headers :: "(string \<times> string) list"
  req_timeout :: pyfloat

text \<open>What \<^verbatim>\<open>urlopen\<close> does with a request: it returns a response with a status, or raises
  \<^verbatim>\<open>HTTPError\<close> (with its code and its \<^verbatim>\<open>Location\<close> header, either of which may be
  missing), \<^verbatim>\<open>URLError\<close>, or another exception.\<close>

datatype outcome =
    Response int
  | HTTPError "int option" "string option"
  | URLError
  | OtherException

text \<open>
  The world outside the process: the clock (the value of the \<open>n\<close>-th call of
  \<^verbatim>\<open>_now_ms\<close>), the network (the outcome of a request, given the requests sent before it)
  and the library function \<^verbatim>\<open>urljoin\<close>.
\<close>

record env =
  clock :: "nat \<Rightarrow> int"
  urlopen :: "request list \<Rightarrow> request \<Rightarrow> outcome"
  urljoin :: "string \<Rightarrow> string \<Rightarrow> string"

text \<open>
  The mutable globals, and what the process has done to the outside: the objects written
  to the NDJSON sink, the rows written to the CSV sink, the requests sent, the delays
  slept, and the number of clock readings taken. Diagnostics on stderr are left out.
\<close>

record gstate =
  state :: "int \<rightharpoonup> ue_state"
  counts :: "string \<Rightarrow> int"
  buffer :: "json list"
  last_post_ms :: int
  out_lines :: "json list"
  csv_rows :: "(string \<times> json) list list"
  requests :: "request list"
  sleeps :: "pyfloat list"
  clock_reads :: nat

definition init_gstate :: gstate where
  "init_gstate =
     \<lparr> state = Map.empty, counts = (\<lambda>_. 0), buffer = [], last_post_ms = 0, out_lines = [],
       csv_rows = [], requests = [], sleeps = [], clock_reads = 0 \<rparr>"

definition count :: "string \<Rightarrow> int \<Rightarrow> gstate \<Rightarrow> gstate" where
  "count k n st = st\<lparr>counts := (counts st)(k := counts st k + n)\<rparr>"

definition now_ms :: "env \<Rightarrow> gstate \<Rightarrow> int \<times> gstate" where
  "now_ms e st = (clock e (clock_reads st), st\<lparr>clock_reads := Suc (clock_reads st)\<rparr>)"

definition get_ue :: "int \<Rightarrow> gstate \<Rightarrow> ue_state \<times> gstate" where
  "get_ue r st =
     (case state st r of
        Some ue \<Rightarrow> (ue, st)
      | None \<Rightarrow> (init_ue r, st\<lparr>state := (state st)(r \<mapsto> init_ue r)\<rparr>))"

text \<open>A handler mutates the dictionary \<^verbatim>\<open>_get_ue\<close> returned, which is the one the table
  holds: the update is written back under the same key.\<close>

definition put_ue :: "int \<Rightarrow> ue_state \<Rightarrow> gstate \<Rightarrow> gstate" where
  "put_ue r ue st = st\<lparr>state := (state st)(r \<mapsto> ue)\<rparr>"

section \<open>Sinks\<close>

definition write_json_line :: "json \<Rightarrow> gstate \<Rightarrow> gstate" where
  "write_json_line obj st = st\<lparr>out_lines := out_lines st @ [obj]\<rparr>"

definition sub_get :: "json \<Rightarrow> string \<Rightarrow> string \<Rightarrow> json \<Rightarrow> json" where
  "sub_get ue part k d = py_or (dict_get (py_or (dict_get ue part JNone) (JDict [])) k JNone) d"

definition csv_row :: "json \<Rightarrow> json \<Rightarrow> json \<Rightarrow> (string \<times> json) list" where
  "csv_row ts src ue =
     [(''timestamp'', ts),
      (''source'', src),
      (''pci'', dict_get ue ''pci'' (JInt 0)),
      (''rnti'', dict_get ue ''rnti'' (JInt 0)),
      (''dl_cqi'', sub_get ue ''downlink'' ''cqi'' (JInt 0)),
      (''dl_ri'', sub_get ue ''downlink'' ''ri'' (JInt 0)),
      (''dl_mcs'', sub_get ue ''downlink'' ''mcs'' (JInt 0)),
      (''dl_bitrate'', sub_get ue ''downlink'' ''bitrate'' (JInt 0)),
      (''dl_packets_ok'', sub_get ue ''downlink'' ''packets_ok'' (JInt 0)),
      (''dl_packets_nok'', sub_get ue ''downlink'' ''packets_nok'' (JInt 0)),
      (''dl_drop_rate'', sub_get ue ''downlink'' ''drop_rate'' (JFloat 0)),
      (''dl_buffer_status'', sub_get ue ''downlink'' ''buffer_status'' (JInt 0)),
      (''ul_pusch_sinr'', sub_get ue ''uplink'' ''pusch_sinr'' (JFloat 0)),
      (''ul_rsrp'', sub_get ue ''uplink'' ''rsrp'' (JFloat 0)),
      (''ul_ri'', sub_get ue ''uplink'' ''ri'' (JInt 0)),
      (''ul_mcs'', sub_get ue ''uplink'' ''mcs'' (JInt 0)),
      (''ul_bitrate'', sub_get ue ''uplink'' ''bitrate'' (JInt 0)),
      (''ul_packets_ok'', sub_get ue ''uplink'' ''packets_ok'' (JInt 0)),
      (''ul_packets_nok'', sub_get ue ''uplink'' ''packets_nok'' (JInt 0)),
      (''ul_drop_rate'', sub_get ue ''uplink'' ''drop_rate'' (JFloat 0)),
      (''ul_bsr'', sub_get ue ''uplink'' ''bsr'' (JInt 0)),
      (''ul_timing_advance'', sub_get ue ''uplink'' ''timing_advance'' (JInt 0)),
      (''ul_phr'', sub_get ue ''uplink'' ''phr'' (JFloat 0))]"

fun items :: "json \<Rightarrow> json list" where
  "items (JList xs) = xs"
| "items _ = []"

definition write_csv_rows :: "config \<Rightarrow> json \<Rightarrow> gstate \<Rightarrow> gstate" where
  "write_csv_rows cfg snapshot st =
     (if \<not> csv_enabled cfg then st
      else
        let ts = dict_get snapshot ''timestamp'' JNone;
            src = dict_get snapshot ''source'' (JStr (source cfg));
            ues = py_or (dict_get snapshot ''ues'' JNone) (JList [])
        in foldl (\<lambda>s ue. s\<lparr>csv_rows := csv_rows s @ [csv_row ts src ue]\<rparr>) st (items ues))"

section \<open>Delivery client\<close>

definition backoff_base :: pyfloat where
  "backoff_base = 1 / 2"

definition max_redirects :: int where
  "max_redirects = 5"

definition http_headers :: "(string \<times> string) list" where
  "http_headers =
     [(''Content-Type'', ''application/json; charset=utf-8''),
      (''Accept'', ''application/json''),
      (''User-Agent'', ''oai-gnb-monitor/1.3 (+python-urllib)''),
      (''Connection'', ''close'')]"

definition post_request :: "string \<Rightarrow> json \<Rightarrow> pyfloat \<Rightarrow> request" where
  "post_request url obj timeout =
     \<lparr> req_method = ''POST'', req_url = url, req_data = obj, req_headers = http_headers,
       req_timeout = timeout \<rparr>"

definition toggle_slash :: "string \<Rightarrow> string" where
  "toggle_slash url = (if endswith url ''/'' then butlast url else url @ ''/'')"

definition is_redirect :: "int option \<Rightarrow> bool" where
  "is_redirect code = (code \<in> set [Some 301, Some 302, Some 303, Some 307, Some 308])"

definition is_transient :: "int option \<Rightarrow> bool" where
  "is_transient code = (code \<in> set [Some 429, Some 500, Some 502, Some 503, Some 504])"

text \<open>
  The \<^verbatim>\<open>while True\<close> loop of \<^verbatim>\<open>_http_post_json\<close>, over its local variables
  \<open>attempt\<close>, \<open>delay\<close>, \<open>current_url\<close> and \<open>redirects\<close>. Nothing bounds the number of its
  iterations, so the result is an option: \<open>None\<close> is a call that never returns.
\<close>

partial_function (option) http_loop ::
  "env \<Rightarrow> json \<Rightarrow> pyfloat \<Rightarrow> int \<Rightarrow> int \<Rightarrow> pyfloat \<Rightarrow> string \<Rightarrow> int \<Rightarrow> gstate
     \<Rightarrow> (bool \<times> gstate) option"
where
  "http_loop e obj timeout retries attempt delay current_url redirects st =
     (let req = post_request current_url obj timeout;
          st1 = st\<lparr>requests := requests st @ [req]\<rparr>
      in case urlopen e (requests st) req of
           Response code \<Rightarrow> Some (200 \<le> code \<and> code < 300, st1)
         | HTTPError code loc \<Rightarrow>
             if is_redirect code then
               (case loc of
                  None \<Rightarrow> Some (False, st1)
                | Some l \<Rightarrow>
                    if l = [] then Some (False, st1)
                    else if redirects + 1 > max_redirects then Some (False, st1)
                    else http_loop e obj timeout retries attempt delay (urljoin e current_url l)
                           (redirects + 1) st1)
             else if code = Some 405 \<and> toggle_slash current_url \<noteq> current_url then
               http_loop e obj timeout retries attempt delay (toggle_slash current_url)
                 redirects st1
             else if \<not> is_transient code \<or> attempt + 1 > retries then Some (False, st1)
             else http_loop e obj timeout retries (attempt + 1) (delay * 2) current_url redirects
                    (st1\<lparr>sleeps := sleeps st1 @ [delay]\<rparr>)
         | URLError \<Rightarrow>
             if attempt + 1 > retries then Some (False, st1)
             else http_loop e obj timeout retries (attempt + 1) (delay * 2) current_url redirects
                    (st1\<lparr>sleeps := sleeps st1 @ [delay]\<rparr>)
         | OtherException \<Rightarrow>
             if attempt + 1 > retries then Some (False, st1)
             else http_loop e obj timeout retries (attempt + 1) (delay * 2) current_url redirects
                    (st1\<lparr>sleeps := sleeps st1 @ [delay]\<rparr>))"

definition http_post_json ::
  "env \<Rightarrow> string \<Rightarrow> json \<Rightarrow> pyfloat \<Rightarrow> int \<Rightarrow> gstate \<Rightarrow> (bool \<times> gstate) option" where
  "http_post_json e url obj timeout retries st =
     http_loop e obj timeout retries 0 backoff_base url 0 st"

section \<open>Delivery buffer\<close>

text \<open>
  \<^verbatim>\<open>_maybe_post_flush\<close>. The result is an option because the delivery client may never
  return. \<^verbatim>\<open>int(_SEND_INTERVAL * 1000)\<close> truncates.
\<close>

definition maybe_post_flush :: "config \<Rightarrow> env \<Rightarrow> bool \<Rightarrow> gstate \<Rightarrow> gstate option" where
  "maybe_post_flush cfg e force st =
     (case post_url cfg of
        None \<Rightarrow> Some st
      | Some url \<Rightarrow>
          if url = [] then Some st
          else if buffer st = [] then Some st
          else
            let (now, st1) = now_ms e st;
                due = (force \<or> last_post_ms st1 = 0
                         \<or> now - last_post_ms st1 \<ge> int_of_float (send_interval cfg * 1000))
            in if \<not> due then Some st1
               else if one_at_a_time cfg then
                 (let (item, st2) =
                        (if send_order cfg = ''fifo''
                         then (hd (buffer st1), st1\<lparr>buffer := tl (buffer st1)\<rparr>)
                         else (last (buffer st1), st1\<lparr>buffer := []\<rparr>))
                  in case http_post_json e url item (post_timeout cfg) (max_retries cfg) st2 of
                       None \<Rightarrow> None
                     | Some (ok, st3) \<Rightarrow>
                         if ok then
                           Some ((count ''posted_snapshots'' 1 (count ''posted_batches'' 1 st3))
                                   \<lparr>last_post_ms := now\<rparr>)
                         else
                           (let st4 = count ''post_errors'' 1 st3
                            in if send_order cfg = ''fifo''
                               then Some (st4\<lparr>buffer := item # buffer st4\<rparr>)
                               else Some st4))
               else
                 (let payload = buffer st1
                  in case http_post_json e url (JList payload) (post_timeout cfg) (max_retries cfg)
                            st1 of
                       None \<Rightarrow> None
                     | Some (ok, st3) \<Rightarrow>
                         if ok then
                           Some ((count ''posted_snapshots'' (int (length payload))
                                    (count ''posted_batches'' 1 st3))
                                   \<lparr>buffer := [], last_post_ms := now\<rparr>)
                         else Some (count ''post_errors'' 1 st3)))"

section \<open>Snapshot emission\<close>

definition post_enabled :: "config \<Rightarrow> bool" where
  "post_enabled cfg = (case post_url cfg of None \<Rightarrow> False | Some url \<Rightarrow> url \<noteq> [])"

definition emit_snapshot :: "config \<Rightarrow> env \<Rightarrow> ue_state \<Rightarrow> gstate \<Rightarrow> gstate" where
  "emit_snapshot cfg e ue st =
     (let (ts, st1) = now_ms e st;
          payload = snapshot_payload ts (source cfg) ue;
          st2 = write_json_line payload st1;
          st3 = count ''snapshots'' 1 st2;
          st4 = write_csv_rows cfg payload st3
      in if post_enabled cfg then
           (if one_at_a_time cfg \<and> send_order cfg = ''latest''
            then st4\<lparr>buffer := [payload]\<rparr>
            else st4\<lparr>buffer := buffer st4 @ [payload]\<rparr>)
         else st4)"

section \<open>Regular expressions\<close>

text \<open>
  The fragment of Python's \<^verbatim>\<open>re\<close> syntax that the patterns of the monitor use, matched as
  \<^verbatim>\<open>re\<close> matches it: by backtracking, leftmost alternative first, greedy repetition longest
  first, lazy repetition shortest first, letters compared without case (\<^verbatim>\<open>re.IGNORECASE\<close>).
  Every repetition in the patterns is over a single character class.
\<close>

datatype cclass =
    AnyChar             \<comment> \<open>\<^verbatim>\<open>.\<close>: any character but a newline\<close>
  | Digit               \<comment> \<open>\<^verbatim>\<open>\d\<close>\<close>
  | Hex                 \<comment> \<open>\<^verbatim>\<open>[0-9a-fA-F]\<close>\<close>
  | Space               \<comment> \<open>\<^verbatim>\<open>\s\<close>\<close>
  | OneOf string        \<comment> \<open>\<^verbatim>\<open>[...]\<close>\<close>
  | NoneOf string       \<comment> \<open>\<^verbatim>\<open>[^...]\<close>\<close>

datatype regex =
    Lit string          \<comment> \<open>literal text\<close>
  | Seq regex regex
  | Alt regex regex     \<comment> \<open>\<^verbatim>\<open>r|s\<close>\<close>
  | Opt regex           \<comment> \<open>\<^verbatim>\<open>(?:r)?\<close>\<close>
  | Star cclass         \<comment> \<open>\<^verbatim>\<open>c*\<close>\<close>
  | Plus cclass         \<comment> \<open>\<^verbatim>\<open>c+\<close>\<close>
  | LazyStar cclass     \<comment> \<open>\<^verbatim>\<open>c*?\<close>\<close>
  | Group string regex  \<comment> \<open>\<^verbatim>\<open>(?P<name>r)\<close>\<close>
  | WordB               \<comment> \<open>\<^verbatim>\<open>\b\<close>\<close>

fun cmatch :: "cclass \<Rightarrow> char \<Rightarrow> bool" where
  "cmatch AnyChar c = (c \<noteq> CHR 0x0A)"
| "cmatch Digit c = is_decdigit c"
| "cmatch Hex c = is_hexdigit c"
| "cmatch Space c = py_isspace c"
| "cmatch (OneOf cs) c = (lower_char c \<in> set (lower cs))"
| "cmatch (NoneOf cs) c = (lower_char c \<notin> set (lower cs))"

definition is_word_char :: "char \<Rightarrow> bool" where
  "is_word_char c =
     (lower_char c \<in> set ''abcdefghijklmnopqrstuvwxyz'' \<or> is_decdigit c \<or> c = CHR ''_'')"

text \<open>The captures of a match, the latest binding of a name first; a matching position is
  the character before it (for \<^verbatim>\<open>\b\<close>), the text that remains and the captures so far.\<close>

type_synonym caps = "(string \<times> string) list"
type_synonym mstate = "char option \<times> string \<times> caps"

fun lit_match :: "string \<Rightarrow> char option \<Rightarrow> string \<Rightarrow> (char option \<times> string) option" where
  "lit_match [] p s = Some (p, s)"
| "lit_match (l # ls) p [] = None"
| "lit_match (l # ls) p (x # xs) =
     (if lower_char x = lower_char l then lit_match ls (Some x) xs else None)"

fun star_greedy :: "cclass \<Rightarrow> char option \<Rightarrow> string \<Rightarrow> caps \<Rightarrow> (mstate \<Rightarrow> caps option)
    \<Rightarrow> caps option" where
  "star_greedy c p [] cs k = k (p, [], cs)"
| "star_greedy c p (x # xs) cs k =
     (if cmatch c x then
        (case star_greedy c (Some x) xs cs k of
           Some res \<Rightarrow> Some res
         | None \<Rightarrow> k (p, x # xs, cs))
      else k (p, x # xs, cs))"

fun star_lazy :: "cclass \<Rightarrow> char option \<Rightarrow> string \<Rightarrow> caps \<Rightarrow> (mstate \<Rightarrow> caps option)
    \<Rightarrow> caps option" where
  "star_lazy c p [] cs k = k (p, [], cs)"
| "star_lazy c p (x # xs) cs k =
     (case k (p, x # xs, cs) of
        Some res \<Rightarrow> Some res
      | None \<Rightarrow> if cmatch c x then star_lazy c (Some x) xs cs k else None)"

definition at_boundary :: "char option \<Rightarrow> string \<Rightarrow> bool" where
  "at_boundary p s =
     ((case p of None \<Rightarrow> False | Some c \<Rightarrow> is_word_char c)
        \<noteq> (case s of [] \<Rightarrow> False | x # _ \<Rightarrow> is_word_char x))"

primrec rmatch :: "regex \<Rightarrow> mstate \<Rightarrow> (mstate \<Rightarrow> caps option) \<Rightarrow> caps option" where
  "rmatch (Lit l) st k =
     (case st of (p, s, cs) \<Rightarrow>
        (case lit_match l p s of None \<Rightarrow> None | Some (p', s') \<Rightarrow> k (p', s', cs)))"
| "rmatch (Seq r1 r2) st k = rmatch r1 st (\<lambda>st'. rmatch r2 st' k)"
| "rmatch (Alt r1 r2) st k =
     (case rmatch r1 st k of Some res \<Rightarrow> Some res | None \<Rightarrow> rmatch r2 st k)"
| "rmatch (Opt r) st k =
     (case rmatch r st k of Some res \<Rightarrow> Some res | None \<Rightarrow> k st)"
| "rmatch (Star c) st k = (case st of (p, s, cs) \<Rightarrow> star_greedy c p s cs k)"
| "rmatch (Plus c) st k =
     (case st of (p, s, cs) \<Rightarrow>
        (case s of
           [] \<Rightarrow> None
         | x # xs \<Rightarrow> if cmatch c x then star_greedy c (Some x) xs cs k else None))"
| "rmatch (LazyStar c) st k = (case st of (p, s, cs) \<Rightarrow> star_lazy c p s cs k)"
| "rmatch (Group n r) st k =
     (case st of (p, s, cs) \<Rightarrow>
        rmatch r st (\<lambda>(p', s', cs'). k (p', s', (n, take (length s - length s') s) # cs')))"
| "rmatch WordB st k =
     (case st of (p, s, cs) \<Rightarrow> if at_boundary p s then k st else None)"

text \<open>\<^verbatim>\<open>pattern.search(s)\<close>: the first position, from the left, at which the pattern
  matches; \<open>None\<close> when there is none.\<close>

fun search_from :: "regex \<Rightarrow> char option \<Rightarrow> string \<Rightarrow> caps option" where
  "search_from r p [] = rmatch r (p, [], []) (\<lambda>(_, _, cs). Some cs)"
| "search_from r p (x # xs) =
     (case rmatch r (p, x # xs, []) (\<lambda>(_, _, cs). Some cs) of
        Some cs \<Rightarrow> Some cs
      | None \<Rightarrow> search_from r (Some x) xs)"

definition search :: "regex \<Rightarrow> string \<Rightarrow> caps option" where
  "search r s = search_from r None s"

definition group :: "caps \<Rightarrow> string \<Rightarrow> string option" where
  "group m n = map_of m n"

subsection \<open>The patterns\<close>

definition seqs :: "regex list \<Rightarrow> regex" where
  "seqs rs = foldr Seq rs (Lit [])"

text \<open>\<^verbatim>\<open>-?\d+(?:\.\d+)?\<close>\<close>

definition number :: regex where
  "number = seqs [Opt (Lit ''-''), Plus Digit, Opt (seqs [Lit ''.'', Plus Digit])]"

text \<open>\<^verbatim>\<open>(?:, average RSRP (?P<rsrp>-?\d+(?:\.\d+)?)(?: \([^)]*\))?)?\<close>\<close>

definition rsrp_part :: regex where
  "rsrp_part =
     Opt (seqs [Lit '', average RSRP '', Group ''rsrp'' number,
                Opt (seqs [Lit '' ('', Star (NoneOf '')''), Lit '')''])])"

definition P_HEADER_SIMPLE :: regex where
  "P_HEADER_SIMPLE =
     seqs [Lit ''UE RNTI '', Group ''rnti'' (Plus Hex), Star Space,
           Opt (seqs [Lit ''('', Group ''cu'' (Plus Digit), Lit '')'']),
           LazyStar AnyChar, Lit ''PH '', Group ''phr'' number, Lit '' dB'',
           LazyStar AnyChar, Lit ''PCMAX '', Group ''pcmax'' number, Lit '' dBm'',
           rsrp_part]"

definition P_HEADER_OLD :: regex where
  "P_HEADER_OLD =
     seqs [Lit ''UE RNTI '', Group ''rnti'' (Plus Hex), WordB,
           LazyStar AnyChar, Group ''sync'' (Alt (Lit ''in-sync'') (Lit ''out-of-sync'')), WordB,
           LazyStar AnyChar, Lit ''PH '', Group ''phr'' number, Lit '' dB'',
           LazyStar AnyChar, Lit ''PCMAX '', Group ''pcmax'' number, Lit '' dBm'',
           rsrp_part,
           Opt (seqs [LazyStar AnyChar, Lit ''average SINR '', Group ''sinsb'' number])]"

definition P_CQI :: regex where
  "P_CQI =
     seqs [Lit ''UE '', Group ''rnti'' (Plus Hex), Lit '': CQI '', Group ''cqi'' (Plus Digit),
           Lit '', RI '', Group ''ri'' (Plus Digit), Lit '', PMI'']"

text \<open>\<^verbatim>\<open>(?P<a>\d+)\/(?P<b>\d+)\/(?P<c>\d+)\/(?P<d>\d+)\<close>\<close>

definition rounds :: regex where
  "rounds =
     seqs [Group ''a'' (Plus Digit), Lit ''/'', Group ''b'' (Plus Digit), Lit ''/'',
           Group ''c'' (Plus Digit), Lit ''/'', Group ''d'' (Plus Digit)]"

definition P_DLSCH_OLD :: regex where
  "P_DLSCH_OLD =
     seqs [Lit ''UE '', Group ''rnti'' (Plus Hex), Lit '': dlsch_rounds '', rounds,
           Lit '', dlsch_errors '', Group ''errors'' (Plus Digit),
           Lit '', pucch0_DTX '', Group ''pucch0_dtx'' (Plus Digit),
           Lit '', BLER '', Group ''bler'' (Plus (OneOf ''0123456789.'')),
           Lit '' MCS ('', Group ''mcs_table'' (Plus Digit), Lit '') '',
           Group ''mcs'' (Plus Digit)]"

definition P_DLSCH_SIMPLE :: regex where
  "P_DLSCH_SIMPLE =
     seqs [Lit ''UE '', Group ''rnti'' (Plus Hex), Lit '': dlsch_rounds '', rounds,
           Lit '', dlsch_errors '', Group ''errors'' (Plus Digit),
           Lit '', pucch0_DTX '', Group ''pucch0_dtx'' (Plus Digit),
           Lit '', BLER '', Group ''bler'' (Plus (OneOf ''0123456789.'')),
           Lit '' MCS '', Group ''mcs'' (Plus Digit)]"

definition P_ULSCH_OLD :: regex where
  "P_ULSCH_OLD =
     seqs [Lit ''UE '', Group ''rnti'' (Plus Hex), Lit '': ulsch_rounds '', rounds,
           Lit '', ulsch_errors '', Group ''errors'' (Plus Digit),
           Lit '', ulsch_DTX '', Group ''dtx'' (Plus Digit),
           Lit '', BLER '', Group ''bler'' (Plus (OneOf ''0123456789.'')),
           Lit '' MCS ('', Group ''mcs_table'' (Plus Digit), Lit '') '',
           Group ''mcs'' (Plus Digit),
           LazyStar AnyChar, Opt (seqs [Lit ''SNR '', Group ''snr'' number, Lit '' dB''])]"

definition P_ULSCH_SIMPLE :: regex where
  "P_ULSCH_SIMPLE =
     seqs [Lit ''UE '', Group ''rnti'' (Plus Hex), Lit '': ulsch_rounds '', rounds,
           Lit '', ulsch_DTX '', Group ''dtx'' (Plus Digit),
           Lit '', ulsch_errors '', Group ''errors'' (Plus Digit),
           Lit '', BLER '', Group ''bler'' (Plus (OneOf ''0123456789.'')),
           Lit '' MCS '', Group ''mcs'' (Plus Digit)]"

definition P_DLSCH_BYTES :: regex where
  "P_DLSCH_BYTES =
     seqs [Lit ''UE '', Group ''rnti'' (Plus Hex), Lit '': dlsch_total_bytes '',
           Group ''bytes'' (Plus Digit)]"

definition P_ULSCH_BYTES_RX :: regex where
  "P_ULSCH_BYTES_RX =
     seqs [Lit ''UE '', Group ''rnti'' (Plus Hex), Lit '': ulsch_total_bytes_received '',
           Group ''bytes'' (Plus Digit)]"

definition P_LCID :: regex where
  "P_LCID =
     seqs [Lit ''UE '', Group ''rnti'' (Plus Hex), Lit '': LCID '', Plus Digit, Lit '': '',
           Star AnyChar]"

section \<open>Line processing\<close>

text \<open>
  \<^verbatim>\<open>float(s)\<close> on the texts the patterns capture for a number: an optional minus sign,
  digits, and optionally a point and more digits. (Python's \<^verbatim>\<open>float\<close> reads more notations;
  the patterns capture none of them, and the model answers \<^verbatim>\<open>ValueError\<close> for them.)
\<close>

definition py_float :: "string \<Rightarrow> error + pyfloat" where
  "py_float s =
     (let neg = startswith s ''-'';
          body = (if neg then drop 1 s else s);
          ip = takeWhile is_decdigit body;
          rest = dropWhile is_decdigit body;
          sgn = (if neg then - 1 else 1)
      in case digits_value 10 ip 0 of
           None \<Rightarrow> Inl ValueError
         | Some i \<Rightarrow>
             if ip = [] then Inl ValueError
             else (case rest of
                     [] \<Rightarrow> Inr (sgn * of_nat i)
                   | c # fp \<Rightarrow>
                       if c = CHR ''.'' \<and> fp \<noteq> [] then
                         (case digits_value 10 fp 0 of
                            None \<Rightarrow> Inl ValueError
                          | Some f \<Rightarrow> Inr (sgn * (of_nat i + of_nat f / 10 ^ length fp)))
                       else Inl ValueError))"

definition bind_err :: "error + 'x \<Rightarrow> ('x \<Rightarrow> error + 'y) \<Rightarrow> error + 'y" where
  "bind_err r f = (case r of Inl err \<Rightarrow> Inl err | Inr v \<Rightarrow> f v)"

text \<open>\<^verbatim>\<open>_parse_rnti(m.group("rnti"))\<close>, \<^verbatim>\<open>int(m.group(n))\<close> and \<^verbatim>\<open>float(m.group(n))\<close>: a group
  that took no part in the match is \<^verbatim>\<open>None\<close>, on which the three raise.\<close>

definition rnti_of :: "caps \<Rightarrow> error + int" where
  "rnti_of m = (case group m ''rnti'' of None \<Rightarrow> Inl AttributeError | Some t \<Rightarrow> parse_rnti t)"

definition int_group :: "caps \<Rightarrow> string \<Rightarrow> error + int" where
  "int_group m n = (case group m n of None \<Rightarrow> Inl TypeError | Some t \<Rightarrow> py_int 10 t)"

definition float_group :: "caps \<Rightarrow> string \<Rightarrow> error + pyfloat" where
  "float_group m n = (case group m n of None \<Rightarrow> Inl TypeError | Some t \<Rightarrow> py_float t)"

text \<open>The bodies of the branches of \<^verbatim>\<open>process_line\<close>, up to the call of
  \<^verbatim>\<open>_maybe_post_flush\<close> that ends each of them.\<close>

definition on_header :: "caps \<Rightarrow> gstate \<Rightarrow> error + gstate" where
  "on_header m st =
     bind_err (rnti_of m) (\<lambda>r.
       let (ue0, st1) = get_ue r st in
       bind_err (case group m ''phr'' of
                   None \<Rightarrow> Inr ue0
                 | Some _ \<Rightarrow> bind_err (float_group m ''phr'') (\<lambda>v. Inr (ue0\<lparr>phr := Some v\<rparr>))) (\<lambda>ue1.
       bind_err (case group m ''pcmax'' of
                   None \<Rightarrow> Inr ue1
                 | Some _ \<Rightarrow> bind_err (float_group m ''pcmax'') (\<lambda>v. Inr (ue1\<lparr>pcmax := Some v\<rparr>))) (\<lambda>ue2.
       let ue3 = (case group m ''rsrp'' of
                    None \<Rightarrow> ue2
                  | Some _ \<Rightarrow> (case float_group m ''rsrp'' of
                                 Inl _ \<Rightarrow> ue2
                               | Inr v \<Rightarrow> ue2\<lparr>rsrp := Some v\<rparr>));
           ue4 = (case group m ''sinsb'' of
                    None \<Rightarrow> ue3
                  | Some _ \<Rightarrow> (case float_group m ''sinsb'' of
                                 Inl _ \<Rightarrow> ue3
                               | Inr v \<Rightarrow> ue3\<lparr>ssb_sinr := Some v\<rparr>))
       in Inr (count ''header'' 1 (put_ue r ue4 st1)))))"

definition on_cqi :: "caps \<Rightarrow> gstate \<Rightarrow> error + gstate" where
  "on_cqi m st =
     bind_err (rnti_of m) (\<lambda>r.
       let (ue0, st1) = get_ue r st in
       bind_err (int_group m ''cqi'') (\<lambda>q.
       bind_err (int_group m ''ri'') (\<lambda>k.
       let ue1 = ue0\<lparr>dl := (dl ue0)\<lparr>cqi := Some q, ri := Some k\<rparr>\<rparr>
       in Inr (count ''cqi'' 1 (put_ue r ue1 st1)))))"

definition on_dlsch :: "caps \<Rightarrow> gstate \<Rightarrow> error + gstate" where
  "on_dlsch m st =
     bind_err (rnti_of m) (\<lambda>r.
       let (ue0, st1) = get_ue r st in
       bind_err (int_group m ''a'') (\<lambda>n.
       bind_err (int_group m ''errors'') (\<lambda>errs.
       bind_err (int_group m ''mcs'') (\<lambda>t.
       let ue1 = ue0\<lparr>dl := update_pkt_stats ((dl ue0)\<lparr>a := n, errors := errs, mcs := Some t\<rparr>)\<rparr>
       in Inr (count ''dlsch'' 1 (put_ue r ue1 st1))))))"

definition on_ulsch :: "caps \<Rightarrow> gstate \<Rightarrow> error + gstate" where
  "on_ulsch m st =
     bind_err (rnti_of m) (\<lambda>r.
       let (ue0, st1) = get_ue r st in
       bind_err (int_group m ''a'') (\<lambda>n.
       bind_err (int_group m ''errors'') (\<lambda>errs.
       bind_err (int_group m ''mcs'') (\<lambda>t.
       let u1 = (ul ue0)\<lparr>a := n, errors := errs, mcs := Some t\<rparr>;
           u2 = (case group m ''snr'' of
                   None \<Rightarrow> u1
                 | Some txt \<Rightarrow>
                     if txt = [] then u1
                     else (case float_group m ''snr'' of
                             Inl _ \<Rightarrow> u1
                           | Inr v \<Rightarrow> u1\<lparr>snr := Some v\<rparr>));
           ue1 = ue0\<lparr>ul := update_pkt_stats u2\<rparr>
       in Inr (count ''ulsch'' 1 (put_ue r ue1 st1))))))"

definition on_dl_bytes :: "env \<Rightarrow> caps \<Rightarrow> gstate \<Rightarrow> error + gstate" where
  "on_dl_bytes e m st =
     bind_err (rnti_of m) (\<lambda>r.
       let (ue0, st1) = get_ue r st;
           (cur_t_ms, st2) = now_ms e st1
       in bind_err (int_group m ''bytes'') (\<lambda>total.
       let ue1 = ue0\<lparr>dl := (dl ue0)\<lparr>bitrate := 4000000, total_bytes := total,
                                     last_total_bytes := Some total,
                                     last_t_ms := Some cur_t_ms\<rparr>\<rparr>
       in Inr (count ''dl_bytes'' 1 (put_ue r ue1 st2))))"

definition on_ul_bytes :: "config \<Rightarrow> env \<Rightarrow> caps \<Rightarrow> gstate \<Rightarrow> error + gstate" where
  "on_ul_bytes cfg e m st =
     bind_err (rnti_of m) (\<lambda>r.
       let (ue0, st1) = get_ue r st;
           (cur_t_ms, st2) = now_ms e st1
       in bind_err (int_group m ''bytes'') (\<lambda>total.
       let ue1 = ue0\<lparr>ul := (ul ue0)\<lparr>bitrate := 4000000, total_bytes_rx := total,
                                     last_total_bytes_rx := Some total,
                                     last_t_ms := Some cur_t_ms\<rparr>\<rparr>
       in Inr (emit_snapshot cfg e ue1 (count ''ul_bytes'' 1 (put_ue r ue1 st2)))))"

definition on_lcid :: "config \<Rightarrow> env \<Rightarrow> caps \<Rightarrow> gstate \<Rightarrow> error + gstate" where
  "on_lcid cfg e m st =
     bind_err (rnti_of m) (\<lambda>r.
       let (ue0, st1) = get_ue r st
       in Inr (emit_snapshot cfg e ue0 (count ''lcid'' 1 st1)))"

text \<open>\<^verbatim>\<open>P.search(s) or Q.search(s)\<close>: a match object is always true.\<close>

definition search2 :: "regex \<Rightarrow> regex \<Rightarrow> string \<Rightarrow> caps option" where
  "search2 p q s = (case search p s of Some m \<Rightarrow> Some m | None \<Rightarrow> search q s)"

text \<open>The end of a branch: an exception leaves \<^verbatim>\<open>process_line\<close>, otherwise the flush check
  runs.\<close>

definition then_flush :: "config \<Rightarrow> env \<Rightarrow> error + gstate \<Rightarrow> (error + gstate) option" where
  "then_flush cfg e r =
     (case r of
        Inl err \<Rightarrow> Some (Inl err)
      | Inr st \<Rightarrow> map_option Inr (maybe_post_flush cfg e False st))"

text \<open>
  \<^verbatim>\<open>process_line\<close>. The outer option is \<open>None\<close> when the call never returns, the sum is
  \<open>Inl\<close> when it raises.
\<close>

definition process_line :: "config \<Rightarrow> env \<Rightarrow> string \<Rightarrow> gstate \<Rightarrow> (error + gstate) option" where
  "process_line cfg e line st0 =
     (let st = count ''lines'' 1 st0;
          s = strip line
      in if s = [] then Some (Inr st)
         else if startswith s ''['' then then_flush cfg e (Inr st)
         else
           case search2 P_HEADER_SIMPLE P_HEADER_OLD s of
             Some m \<Rightarrow> then_flush cfg e (on_header m st)
           | None \<Rightarrow>
           case search P_CQI s of
             Some m \<Rightarrow> then_flush cfg e (on_cqi m st)
           | None \<Rightarrow>
           case search2 P_DLSCH_SIMPLE P_DLSCH_OLD s of
             Some m \<Rightarrow> then_flush cfg e (on_dlsch m st)
           | None \<Rightarrow>
           case search2 P_ULSCH_SIMPLE P_ULSCH_OLD s of
             Some m \<Rightarrow> then_flush cfg e (on_ulsch m st)
           | None \<Rightarrow>
           case search P_DLSCH_BYTES s of
             Some m \<Rightarrow> then_flush cfg e (on_dl_bytes e m st)
           | None \<Rightarrow>
           case search P_ULSCH_BYTES_RX s of
             Some m \<Rightarrow> then_flush cfg e (on_ul_bytes cfg e m st)
           | None \<Rightarrow>
           case search P_LCID s of
             Some m \<Rightarrow> then_flush cfg e (on_lcid cfg e m st)
           | None \<Rightarrow> Some (Inr st))"

text \<open>A run over several lines, as the reading loop makes it: \<^verbatim>\<open>process_line\<close>, then one
  more flush check, for each line in turn.\<close>

fun process_lines :: "config \<Rightarrow> env \<Rightarrow> string list \<Rightarrow> gstate \<Rightarrow> (error + gstate) option" where
  "process_lines cfg e [] st = Some (Inr st)"
| "process_lines cfg e (l # ls) st =
     (case process_line cfg e l st of
        None \<Rightarrow> None
      | Some (Inl err) \<Rightarrow> Some (Inl err)
      | Some (Inr st1) \<Rightarrow>
          (case maybe_post_flush cfg e False st1 of
             None \<Rightarrow> None
           | Some st2 \<Rightarrow> process_lines cfg e ls st2))"

section \<open>Reading a snapshot\<close>

text \<open>Accessors for stating what a snapshot holds: the device records of a payload, and
  the entry \<open>k\<close> of the sub-dictionary \<open>part\<close> of a device record.\<close>

definition snapshot_ues :: "json \<Rightarrow> json list" where
  "snapshot_ues payload = items (dict_get payload ''ues'' JNone)"

definition snapshot_field :: "json \<Rightarrow> string \<Rightarrow> string \<Rightarrow> json" where
  "snapshot_field ue part k = dict_get (dict_get ue part JNone) k JNone"

text \<open>The settings the module starts with, before any command-line option changes them.\<close>

definition default_config :: config where
  "default_config =
     \<lparr> post_url = None, post_timeout = 5, max_retries = 3, send_interval = 1,
       one_at_a_time = True, send_order = ''latest'', source = ''OAI'', csv_enabled = False \<rparr>"

section \<open>Statements of the specification\<close>

text \<open>What the specification says of the derived fields of one direction, for the
  scheduled count \<open>n\<close> and the error count \<open>e\<close> of the report just applied.\<close>

definition derived_ok :: "'x side_scheme \<Rightarrow> int \<Rightarrow> int \<Rightarrow> bool" where
  "derived_ok sd n e =
     (packets_ok sd = max 0 (n - e) \<and> packets_nok sd = e \<and>
      drop_rate sd = (if n > 0 then of_int e / of_int n * 100 else 0) \<and>
      (n = 0 \<longrightarrow> drop_rate sd = 0) \<and>
      (n > 0 \<and> e \<le> n \<longrightarrow> packets_ok sd + packets_nok sd = n))"

section \<open>Example servers\<close>

text \<open>Networks for concrete runs: the clock advances by one with each reading, every \<^verbatim>\<open>Location\<close> is an
  absolute URL, which \<^verbatim>\<open>urljoin\<close> returns as it is.\<close>

definition absolute_env :: "(request list \<Rightarrow> request \<Rightarrow> outcome) \<Rightarrow> env" where
  "absolute_env srv =
     \<lparr> clock = (\<lambda>n. 1000 + int n), urlopen = srv, urljoin = (\<lambda>base loc. loc) \<rparr>"

definition server_405 :: env where
  "server_405 = absolute_env (\<lambda>h q. HTTPError (Some 405) None)"





text \<open>Every request of a list is a POST that carries the body \<open>obj\<close>.\<close>

definition all_posts :: "json \<Rightarrow> request list \<Rightarrow> bool" where
  "all_posts obj reqs = list_all (\<lambda>q. req_method q = ''POST'' \<and> req_data q = obj) reqs"

definition server_ok :: env where
  "server_ok = absolute_env (\<lambda>h q. Response 200)"

definition server_not_found :: env where
  "server_not_found = absolute_env (\<lambda>h q. HTTPError (Some 404) None)"

text \<open>The default settings with delivery switched on, for a send order.\<close>

definition posting_config :: "string \<Rightarrow> config" where
  "posting_config order = default_config\<lparr>post_url := Some ''http://h/a'', send_order := order\<rparr>"

section \<open>Statements about the delivery buffer\<close>

text \<open>A flush is due: forced, or nothing sent yet, or the interval has passed at the next
  reading of the clock.\<close>

definition flush_due :: "config \<Rightarrow> env \<Rightarrow> bool \<Rightarrow> gstate \<Rightarrow> bool" where
  "flush_due cfg e force st =
     (force \<or> last_post_ms st = 0
        \<or> clock e (clock_reads st) - last_post_ms st \<ge> int_of_float (send_interval cfg * 1000))"

text \<open>Two states differ in the requests sent and the delays slept at most.\<close>

definition network_only :: "gstate \<Rightarrow> gstate \<Rightarrow> bool" where
  "network_only st st' =
     (state st' = state st \<and> counts st' = counts st \<and> buffer st' = buffer st
       \<and> last_post_ms st' = last_post_ms st \<and> out_lines st' = out_lines st
       \<and> csv_rows st' = csv_rows st \<and> clock_reads st' = clock_reads st)"

text \<open>The states between operations: the initial one, and those that a processed line or a
  flush check, forced or not, leaves behind.\<close>

inductive reachable :: "config \<Rightarrow> env \<Rightarrow> gstate \<Rightarrow> bool" for cfg :: config and e :: env where
  start: "reachable cfg e init_gstate"
| line: "reachable cfg e st \<Longrightarrow> process_line cfg e l st = Some (Inr st') \<Longrightarrow> reachable cfg e st'"
| flush: "reachable cfg e st \<Longrightarrow> maybe_post_flush cfg e force st = Some st' \<Longrightarrow> reachable cfg e st'"

section \<open>The classifier of the specification\<close>

text \<open>
  The specification describes classification as an ordered list of patterns, each with the
  kind of event it yields; the first pattern that matches wins, and the event carries the
  captured fields. Blank and bracketed lines are set apart before the list is tried.
\<close>

datatype event =
    Blank
  | Bracketed
  | Header caps
  | ChannelQuality caps
  | DlSchedule caps
  | UlSchedule caps
  | DlBytes caps
  | UlBytes caps
  | Marker caps
  | Unmatched

definition pattern_table :: "(regex \<times> (caps \<Rightarrow> event)) list" where
  "pattern_table =
     [(P_HEADER_SIMPLE, Header), (P_HEADER_OLD, Header),
      (P_CQI, ChannelQuality),
      (P_DLSCH_SIMPLE, DlSchedule), (P_DLSCH_OLD, DlSchedule),
      (P_ULSCH_SIMPLE, UlSchedule), (P_ULSCH_OLD, UlSchedule),
      (P_DLSCH_BYTES, DlBytes),
      (P_ULSCH_BYTES_RX, UlBytes),
      (P_LCID, Marker)]"

fun first_match :: "string \<Rightarrow> (regex \<times> (caps \<Rightarrow> event)) list \<Rightarrow> event" where
  "first_match s [] = Unmatched"
| "first_match s ((p, tag) # rest) =
     (case search p s of Some m \<Rightarrow> tag m | None \<Rightarrow> first_match s rest)"

definition classify :: "string \<Rightarrow> event" where
  "classify line =
     (let s = strip line
      in if s = [] then Blank
         else if startswith s ''['' then Bracketed
         else first_match s pattern_table)"

text \<open>The events on which a snapshot is emitted, and those that only update a device.\<close>

fun emits :: "event \<Rightarrow> bool" where
  "emits (UlBytes m) = True"
| "emits (Marker m) = True"
| "emits _ = False"

fun updates_only :: "event \<Rightarrow> bool" where
  "updates_only (Header m) = True"
| "updates_only (ChannelQuality m) = True"
| "updates_only (DlSchedule m) = True"
| "updates_only (UlSchedule m) = True"
| "updates_only (DlBytes m) = True"
| "updates_only _ = False"

fun ignored :: "event \<Rightarrow> bool" where
  "ignored Blank = True"
| "ignored Bracketed = True"
| "ignored Unmatched = True"
| "ignored _ = False"

fun event_caps :: "event \<Rightarrow> caps" where
  "event_caps (Header m) = m"
| "event_caps (ChannelQuality m) = m"
| "event_caps (DlSchedule m) = m"
| "event_caps (UlSchedule m) = m"
| "event_caps (DlBytes m) = m"
| "event_caps (UlBytes m) = m"
| "event_caps (Marker m) = m"
| "event_caps _ = []"

section \<open>The scenario of the specification\<close>

definition scenario_lines :: "string list" where
  "scenario_lines =
     [''UE RNTI 64 ... PH 10 dB PCMAX 23 dBm, average RSRP -80'',
      ''UE 64: CQI 10, RI 2, PMI ...'',
      ''UE 64: dlsch_rounds 100/0/0/0, dlsch_errors 5, pucch0_DTX 0, BLER 0.05 MCS 10'',
      ''UE 64: ulsch_total_bytes_received 2048'']"

section \<open>Statements about a processed line\<close>

text \<open>Every device of the table is stored under its own identifier.\<close>

definition store_ok :: "gstate \<Rightarrow> bool" where
  "store_ok st = (\<forall>r ue. state st r = Some ue \<longrightarrow> rnti ue = r)"

text \<open>A step that writes to no sink, leaves the buffer and the send time alone, sends
  nothing and emits nothing.\<close>

definition quiet :: "gstate \<Rightarrow> gstate \<Rightarrow> bool" where
  "quiet st st' =
     (out_lines st' = out_lines st \<and> csv_rows st' = csv_rows st \<and> buffer st' = buffer st
      \<and> last_post_ms st' = last_post_ms st \<and> requests st' = requests st
      \<and> counts st' ''snapshots'' = counts st ''snapshots'')"

text \<open>A step that writes the device of the identifier captured in \<open>m\<close> back to the table,
  under that identifier; and a step that emits one snapshot of that device: one object on the
  NDJSON sink, one row on the CSV sink when there is one, and the snapshot handed to the
  buffer when delivery is configured.\<close>

definition device_update :: "gstate \<Rightarrow> caps \<Rightarrow> gstate \<Rightarrow> bool" where
  "device_update st m st' =
     (\<exists>r ue. rnti_of m = Inr r \<and> state st' = (state st)(r \<mapsto> ue)
            \<and> rnti ue = rnti (fst (get_ue r st)))"

definition emission :: "config \<Rightarrow> gstate \<Rightarrow> caps \<Rightarrow> gstate \<Rightarrow> bool" where
  "emission cfg st m st' =
     (\<exists>r ue ts.
        rnti_of m = Inr r \<and> state st' r = Some ue
        \<and> out_lines st' = out_lines st @ [snapshot_payload ts (source cfg) ue]
        \<and> csv_rows st' =
            csv_rows st @ (if csv_enabled cfg
                           then [csv_row (JInt ts) (JStr (source cfg)) (snapshot_ue ue)] else [])
        \<and> buffer st' =
            (if post_enabled cfg
             then (if one_at_a_time cfg \<and> send_order cfg = ''latest''
                   then [snapshot_payload ts (source cfg) ue]
                   else buffer st @ [snapshot_payload ts (source cfg) ue])
             else buffer st)
        \<and> last_post_ms st' = last_post_ms st
        \<and> counts st' ''snapshots'' = counts st ''snapshots'' + 1)"

section \<open>Observing a run\<close>

text \<open>What a run that returned shows of its final state; and, of the snapshots written to
  the NDJSON sink, the device identifiers, chosen fields, and the number of objects and of
  CSV rows.\<close>

definition observed :: "(gstate \<Rightarrow> 'x) \<Rightarrow> (error + gstate) option \<Rightarrow> (error + 'x) option" where
  "observed f r = map_option (map_sum id f) r"

definition emitted_ids :: "gstate \<Rightarrow> json list list" where
  "emitted_ids st = map (\<lambda>p. map (\<lambda>u. dict_get u ''rnti'' JNone) (snapshot_ues p)) (out_lines st)"

definition emitted_fields :: "string \<Rightarrow> string list \<Rightarrow> gstate \<Rightarrow> json list list list" where
  "emitted_fields part ks st =
     map (\<lambda>p. map (\<lambda>u. map (snapshot_field u part) ks) (snapshot_ues p)) (out_lines st)"

definition emitted_counts :: "gstate \<Rightarrow> nat \<times> nat" where
  "emitted_counts st = (length (out_lines st), length (csv_rows st))"

section \<open>What a pattern matches\<close>

text \<open>
  The meaning of a pattern, apart from any matching strategy: \<open>rmatches r w cs cs'\<close> says
  that the pattern \<open>r\<close> matches the whole of the word \<open>w\<close> and, doing so, extends the
  captures \<open>cs\<close> to \<open>cs'\<close>. (Word boundaries are not checked here: the relation bounds what
  the matcher can return, which is what the properties below need.)
\<close>

inductive rmatches :: "regex \<Rightarrow> string \<Rightarrow> caps \<Rightarrow> caps \<Rightarrow> bool" where
  Lit: "lower w = lower l \<Longrightarrow> rmatches (Lit l) w cs cs"
| Seq: "rmatches r1 u cs cs1 \<Longrightarrow> rmatches r2 v cs1 cs2 \<Longrightarrow> rmatches (Seq r1 r2) (u @ v) cs cs2"
| AltL: "rmatches r1 w cs cs' \<Longrightarrow> rmatches (Alt r1 r2) w cs cs'"
| AltR: "rmatches r2 w cs cs' \<Longrightarrow> rmatches (Alt r1 r2) w cs cs'"
| OptT: "rmatches r w cs cs' \<Longrightarrow> rmatches (Opt r) w cs cs'"
| OptS: "rmatches (Opt r) [] cs cs"
| Star: "list_all (cmatch c) w \<Longrightarrow> rmatches (Star c) w cs cs"
| Plus: "w \<noteq> [] \<Longrightarrow> list_all (cmatch c) w \<Longrightarrow> rmatches (Plus c) w cs cs"
| LazyStar: "list_all (cmatch c) w \<Longrightarrow> rmatches (LazyStar c) w cs cs"
| Group: "rmatches r w cs cs' \<Longrightarrow> rmatches (Group n r) w cs ((n, w) # cs')"
| WordB: "rmatches WordB [] cs cs"








chapter \<open>Verified properties\<close>

section \<open>The identifier parser\<close>












section \<open>Packet statistics\<close>

lemma update_pkt_stats_fields:
  fixes sd :: "'x side_scheme"
  shows "packets_ok (update_pkt_stats sd) = max 0 (a sd - errors sd)"
    and "packets_nok (update_pkt_stats sd) = errors sd"
    and "drop_rate (update_pkt_stats sd) =
           (if a sd > 0 then of_int (errors sd) / of_int (a sd) * 100 else 0)"
    and "a (update_pkt_stats sd) = a sd"
    and "errors (update_pkt_stats sd) = errors sd"
  by (simp_all add: update_pkt_stats_def Let_def)

lemma derived_ok_update:
  "derived_ok (update_pkt_stats (sd\<lparr>a := n, errors := e\<rparr>)) n e"
  by (simp add: derived_ok_def update_pkt_stats_fields)




section \<open>Snapshot building\<close>

text \<open>Every field that may be unset appears in the snapshot as the zero of its type.\<close>

lemma snapshot_unset_defaults:
  "cqi (dl ue) = None \<Longrightarrow> snapshot_field (snapshot_ue ue) ''downlink'' ''cqi'' = JInt 0"
  "ri (dl ue) = None \<Longrightarrow> snapshot_field (snapshot_ue ue) ''downlink'' ''ri'' = JInt 0"
  "mcs (dl ue) = None \<Longrightarrow> snapshot_field (snapshot_ue ue) ''downlink'' ''mcs'' = JInt 0"
  "ri (ul ue) = None \<Longrightarrow> snapshot_field (snapshot_ue ue) ''uplink'' ''ri'' = JInt 0"
  "mcs (ul ue) = None \<Longrightarrow> snapshot_field (snapshot_ue ue) ''uplink'' ''mcs'' = JInt 0"
  "snr (ul ue) = None \<Longrightarrow> snapshot_field (snapshot_ue ue) ''uplink'' ''pusch_sinr'' = JFloat 0"
  "rsrp ue = None \<Longrightarrow> snapshot_field (snapshot_ue ue) ''uplink'' ''rsrp'' = JFloat 0"
  "phr ue = None \<Longrightarrow> snapshot_field (snapshot_ue ue) ''uplink'' ''phr'' = JFloat 0"
  by (simp_all add: snapshot_field_def snapshot_ue_def if_not_none_def opt_or_def)

text \<open>A marker line for a device not seen before emits the snapshot of a freshly created
  state; its downlink bitrate is 4000000.\<close>

lemma fresh_lcid_line_bitrate:
  "map_option (map_sum id (\<lambda>st. map (\<lambda>p. map (\<lambda>u. snapshot_field u ''downlink'' ''bitrate'')
                                            (snapshot_ues p)) (out_lines st)))
     (process_line default_config e ''UE 64: LCID 4: x'' init_gstate)
   = Some (Inr [[JInt 4000000]])"
  by code_simp

text \<open>
  C8. The snapshot of a freshly created device state does not have all its metrics at zero:
  \<^verbatim>\<open>_init_ue\<close> starts the downlink bitrate at \<^verbatim>\<open>4e6\<close>, so the snapshot shows a downlink
  bitrate of 4000000, while the uplink bitrate, started at 0, shows 0.
\<close>

theorem fresh_snapshot_bitrate:
  "snapshot_field (snapshot_ue (init_ue r)) ''downlink'' ''bitrate'' = JInt 4000000
   \<and> snapshot_field (snapshot_ue (init_ue r)) ''uplink'' ''bitrate'' = JInt 0"
  by (simp add: snapshot_field_def snapshot_ue_def init_ue_def num_or_def int_of_float_def)

section \<open>Delivery client\<close>

lemma toggle_slash_neq: "toggle_slash u \<noteq> u"
proof (cases "endswith u ''/''")
  case True
  then have "u \<noteq> []" by (auto simp: endswith_def)
  then have "length (butlast u) < length u" by (cases u rule: rev_cases) auto
  then have "butlast u \<noteq> u" by (metis less_irrefl)
  then show ?thesis using True by (simp add: toggle_slash_def)
next
  case False
  then show ?thesis by (simp add: toggle_slash_def)
qed

lemma loop_405_diverges_aux:
  assumes "http_loop e obj t rt att d cur red st = Some y"
  shows "\<not> (\<forall>h q. urlopen e h q = HTTPError (Some 405) None)"
proof (rule http_loop.raw_induct[where P = "\<lambda>e obj t rt att d cur red st y.
          \<not> (\<forall>h q. urlopen e h q = HTTPError (Some 405) None)", OF _ assms], goal_cases)
  case (1 f e obj t rt att d cur red st y)
  show ?case
  proof
    assume srv: "\<forall>h q. urlopen e h q = HTTPError (Some 405) None"
    from 1(2) have "f e obj t rt att d (toggle_slash cur) red
                      (st\<lparr>requests := requests st @ [post_request cur obj t]\<rparr>) = Some y"
      by (simp add: srv Let_def is_redirect_def toggle_slash_neq)
    from 1(1)[OF this] srv show False by blast
  qed
qed

lemma loop_405_diverges:
  "\<forall>h q. urlopen e h q = HTTPError (Some 405) None \<Longrightarrow>
   http_loop e obj t rt att d cur red st = None"
  using loop_405_diverges_aux by (cases "http_loop e obj t rt att d cur red st") blast+

lemma loop_requests_posts:
  assumes "http_loop e obj t rt att d cur red st = Some y"
  shows "\<exists>reqs. requests (snd y) = requests st @ post_request cur obj t # reqs \<and> all_posts obj reqs"
proof (rule http_loop.raw_induct[where P = "\<lambda>e obj t rt att d cur red st y.
    \<exists>reqs. requests (snd y) = requests st @ post_request cur obj t # reqs \<and> all_posts obj reqs",
    OF _ assms], goal_cases)
  case (1 f e obj t rt att d cur red st y)
  let ?st1 = "st\<lparr>requests := requests st @ [post_request cur obj t]\<rparr>"
  have nil: "all_posts obj []" by (simp add: all_posts_def)
  have now: "requests (snd y) = requests ?st1 \<Longrightarrow> ?case"
    by (simp add: all_posts_def)
  have later: "?case"
    if "f e obj t rt att' d' cur' red' st' = Some y" and "requests st' = requests ?st1"
    for att' d' cur' red' st'
  proof -
    from 1(1)[OF that(1)] obtain reqs where
      r: "requests (snd y) = requests st' @ post_request cur' obj t # reqs" "all_posts obj reqs"
      by blast
    have "all_posts obj (post_request cur' obj t # reqs)"
      using r(2) by (simp add: all_posts_def post_request_def)
    then show ?thesis using r(1) that(2) by auto
  qed
  show ?case
  proof (cases "urlopen e (requests st) (post_request cur obj t)")
    case (Response c)
    with 1(2) show ?thesis by (intro now) (auto simp: Let_def)
  next
    case (HTTPError code loc)
    with 1(2) show ?thesis
      by (auto simp: Let_def nil split: if_splits option.splits intro: later)
  next
    case URLError
    with 1(2) show ?thesis
      by (auto simp: Let_def nil split: if_splits intro: later)
  next
    case OtherException
    with 1(2) show ?thesis
      by (auto simp: Let_def nil split: if_splits intro: later)
  qed
qed


lemma loop_response:
  "urlopen e (requests st) (post_request cur obj t) = Response c \<Longrightarrow>
   http_loop e obj t rt att d cur red st =
     Some (200 \<le> c \<and> c < 300, st\<lparr>requests := requests st @ [post_request cur obj t]\<rparr>)"
  by (subst http_loop.simps) (simp add: Let_def)




lemma loop_permanent_error:
  "urlopen e (requests st) (post_request cur obj t) = HTTPError code loc \<Longrightarrow>
   \<not> is_redirect code \<Longrightarrow> code \<noteq> Some 405 \<Longrightarrow> \<not> is_transient code \<Longrightarrow>
   http_loop e obj t rt att d cur red st =
     Some (False, st\<lparr>requests := requests st @ [post_request cur obj t]\<rparr>)"
  by (subst http_loop.simps) (simp add: Let_def)





text \<open>
  C7. Against a server that answers 405 to every request, hence to both variants of the URL,
  the delivery attempt never returns: each 405 toggles the trailing slash and tries again,
  and nothing counts these retries.
\<close>

theorem http_405_never_returns:
  "http_post_json server_405 url obj t rt st = None"
  unfolding http_post_json_def
  by (rule loop_405_diverges) (simp add: server_405_def absolute_env_def)

section \<open>Delivery buffer\<close>

lemma loop_frame:
  assumes "http_loop e obj t rt att d cur red st = Some y"
  shows "network_only st (snd y)"
proof (rule http_loop.raw_induct[where P = "\<lambda>e obj t rt att d cur red st y.
         network_only st (snd y)", OF _ assms], goal_cases)
  case (1 f e obj t rt att d cur red st y)
  let ?st1 = "st\<lparr>requests := requests st @ [post_request cur obj t]\<rparr>"
  have now: "network_only st ?st1" by (simp add: network_only_def)
  have later: "network_only st (snd y)"
    if "f e obj t rt att' d' cur' red' st' = Some y" and "network_only st st'"
    for att' d' cur' red' st'
    using 1(1)[OF that(1)] that(2) by (simp add: network_only_def)
  have l1: "network_only st ?st1" "network_only st (?st1\<lparr>sleeps := sleeps ?st1 @ [d]\<rparr>)"
    by (simp_all add: network_only_def)
  show ?case
  proof (cases "urlopen e (requests st) (post_request cur obj t)")
    case (Response c)
    with 1(2) show ?thesis using now by (auto simp: Let_def)
  next
    case (HTTPError code loc)
    with 1(2) show ?thesis using now
      by (auto simp: Let_def split: if_splits option.splits intro: later[OF _ l1(1)] later[OF _ l1(2)])
  next
    case URLError
    with 1(2) show ?thesis using now
      by (auto simp: Let_def split: if_splits intro: later[OF _ l1(2)])
  next
    case OtherException
    with 1(2) show ?thesis using now
      by (auto simp: Let_def split: if_splits intro: later[OF _ l1(2)])
  qed
qed

lemma post_frame:
  assumes "http_post_json e url obj t rt st = Some (ok, st')"
  shows "state st' = state st" "counts st' = counts st" "buffer st' = buffer st"
    "last_post_ms st' = last_post_ms st" "out_lines st' = out_lines st"
    "csv_rows st' = csv_rows st" "clock_reads st' = clock_reads st"
  using loop_frame[of e obj t rt 0 backoff_base url 0 st "(ok, st')"] assms
  by (simp_all add: http_post_json_def network_only_def)

lemma post_requests:
  assumes "http_post_json e url obj t rt st = Some (ok, st')"
  shows "\<exists>reqs. requests st' = requests st @ post_request url obj t # reqs \<and> all_posts obj reqs"
  using loop_requests_posts[of e obj t rt 0 backoff_base url 0 st "(ok, st')"] assms
  by (simp add: http_post_json_def)

lemma flush_fifo_aux:
  assumes cfg: "post_url cfg = Some url" "url \<noteq> []" "one_at_a_time cfg" "send_order cfg = ''fifo''"
    and buf: "buffer st = x # xs"
    and due: "flush_due cfg e force st"
    and post: "http_post_json e url x (post_timeout cfg) (max_retries cfg)
                 (st\<lparr>clock_reads := Suc (clock_reads st), buffer := xs\<rparr>) = Some (ok, st3)"
  shows "\<exists>st'. maybe_post_flush cfg e force st = Some st'
           \<and> buffer st' = (if ok then xs else x # xs)
           \<and> last_post_ms st' = (if ok then clock e (clock_reads st) else last_post_ms st)
           \<and> requests st' = requests st3"
proof -
  have st2: "(st\<lparr>clock_reads := Suc (clock_reads st)\<rparr>)\<lparr>buffer := xs\<rparr>
             = st\<lparr>clock_reads := Suc (clock_reads st), buffer := xs\<rparr>" by simp
  note fr = post_frame[OF post]
  show ?thesis
    using cfg buf due post fr
    by (auto simp: maybe_post_flush_def now_ms_def flush_due_def Let_def count_def)
qed


text \<open>
  C5. In FIFO one-at-a-time mode a due flush of a non-empty buffer takes the head snapshot
  off the queue and sends it, alone, in POST requests to the delivery URL. When the delivery
  fails the buffer afterwards is the buffer before the flush, in the same order; when it
  succeeds the head is gone, the rest is unchanged, and the time read at the flush is
  recorded as the time of the last send.
\<close>

theorem fifo_flush:
  assumes "post_url cfg = Some url" and "url \<noteq> []"
    and "one_at_a_time cfg" and "send_order cfg = ''fifo''"
    and "buffer st = x # xs"
    and "flush_due cfg e force st"
    and "http_post_json e url x (post_timeout cfg) (max_retries cfg)
           (st\<lparr>clock_reads := Suc (clock_reads st), buffer := xs\<rparr>) = Some (ok, st3)"
  shows "\<exists>st'. maybe_post_flush cfg e force st = Some st'
           \<and> buffer st' = (if ok then xs else x # xs)
           \<and> last_post_ms st' = (if ok then clock e (clock_reads st) else last_post_ms st)
           \<and> (\<exists>reqs. requests st' = requests st @ post_request url x (post_timeout cfg) # reqs
                      \<and> all_posts x reqs)"
proof -
  from flush_fifo_aux[OF assms] obtain st' where
    f: "maybe_post_flush cfg e force st = Some st'"
       "buffer st' = (if ok then xs else x # xs)"
       "last_post_ms st' = (if ok then clock e (clock_reads st) else last_post_ms st)"
       "requests st' = requests st3" by blast
  from post_requests[OF assms(7)] obtain reqs where
    "requests st3 = requests st @ post_request url x (post_timeout cfg) # reqs" "all_posts x reqs"
    by auto
  with f show ?thesis by auto
qed

lemma post_not_found:
  "http_post_json server_not_found url obj t rt st =
     Some (False, st\<lparr>requests := requests st @ [post_request url obj t]\<rparr>)"
  unfolding http_post_json_def
  by (rule loop_permanent_error[where code = "Some 404" and loc = None])
     (simp_all add: server_not_found_def absolute_env_def is_redirect_def is_transient_def)

lemma post_ok:
  "http_post_json server_ok url obj t rt st =
     Some (True, st\<lparr>requests := requests st @ [post_request url obj t]\<rparr>)"
  unfolding http_post_json_def
  using loop_response[of server_ok st url obj t 200 rt 0 backoff_base 0]
  by (simp add: server_ok_def absolute_env_def)

theorem fifo_flush_witness:
  "(\<exists>st'. maybe_post_flush (posting_config ''fifo'') server_not_found False
             (init_gstate\<lparr>buffer := [JInt 1, JInt 2]\<rparr>) = Some st'
          \<and> buffer st' = [JInt 1, JInt 2] \<and> last_post_ms st' = 0)
   \<and> (\<exists>st'. maybe_post_flush (posting_config ''fifo'') server_ok False
             (init_gstate\<lparr>buffer := [JInt 1, JInt 2]\<rparr>) = Some st'
          \<and> buffer st' = [JInt 2] \<and> last_post_ms st' = 1000)"
proof -
  let ?cfg = "posting_config ''fifo''"
  let ?st = "init_gstate\<lparr>buffer := [JInt 1, JInt 2]\<rparr>"
  have c: "post_url ?cfg = Some ''http://h/a''" "''http://h/a'' \<noteq> []" "one_at_a_time ?cfg"
    "send_order ?cfg = ''fifo''"
    by (simp_all add: posting_config_def default_config_def)
  have b: "buffer ?st = JInt 1 # [JInt 2]" by simp
  have d: "flush_due ?cfg e False ?st" for e by (simp add: flush_due_def init_gstate_def)
  have a1: "\<exists>st'. maybe_post_flush ?cfg server_not_found False ?st = Some st'
          \<and> buffer st' = [JInt 1, JInt 2] \<and> last_post_ms st' = 0"
    using fifo_flush[OF c b d post_not_found] by (auto simp: init_gstate_def)
  have a2: "\<exists>st'. maybe_post_flush ?cfg server_ok False ?st = Some st'
          \<and> buffer st' = [JInt 2] \<and> last_post_ms st' = 1000"
    using fifo_flush[OF c b d post_ok] by (auto simp: init_gstate_def server_ok_def absolute_env_def)
  show ?thesis using a1 a2 by blast
qed

section \<open>Effects of the handlers\<close>

lemma write_csv_rows_payload:
  "write_csv_rows cfg (snapshot_payload ts src ue) st =
     st\<lparr>csv_rows := csv_rows st @ (if csv_enabled cfg
                                       then [csv_row (JInt ts) (JStr src) (snapshot_ue ue)] else [])\<rparr>"
  by (simp add: write_csv_rows_def snapshot_payload_def py_or_def Let_def)

lemma emit_snapshot_effect:
  fixes cfg e ue st
  defines "p \<equiv> snapshot_payload (clock e (clock_reads st)) (source cfg) ue"
  shows "out_lines (emit_snapshot cfg e ue st) = out_lines st @ [p]"
    and "csv_rows (emit_snapshot cfg e ue st) =
           csv_rows st @ (if csv_enabled cfg
                          then [csv_row (JInt (clock e (clock_reads st))) (JStr (source cfg))
                                  (snapshot_ue ue)] else [])"
    and "buffer (emit_snapshot cfg e ue st) =
           (if post_enabled cfg
            then (if one_at_a_time cfg \<and> send_order cfg = ''latest'' then [p] else buffer st @ [p])
            else buffer st)"
    and "state (emit_snapshot cfg e ue st) = state st"
    and "last_post_ms (emit_snapshot cfg e ue st) = last_post_ms st"
    and "requests (emit_snapshot cfg e ue st) = requests st"
    and "counts (emit_snapshot cfg e ue st) ''snapshots'' = counts st ''snapshots'' + 1"
  unfolding p_def
  by (simp_all add: emit_snapshot_def now_ms_def Let_def write_json_line_def count_def
        write_csv_rows_payload)

lemma post_network_only:
  "http_post_json e url obj t rt st = Some (ok, st') \<Longrightarrow> network_only st st'"
  using loop_frame[of e obj t rt 0 backoff_base url 0 st "(ok, st')"]
  by (simp add: http_post_json_def)

lemma flush_frame:
  assumes "maybe_post_flush cfg e force st = Some st'"
  shows "state st' = state st" "out_lines st' = out_lines st" "csv_rows st' = csv_rows st"
    "counts st' ''snapshots'' = counts st ''snapshots''"
proof -
  have "state st' = state st \<and> out_lines st' = out_lines st \<and> csv_rows st' = csv_rows st
        \<and> counts st' ''snapshots'' = counts st ''snapshots''"
  proof (cases "post_url cfg")
    case None
    with assms show ?thesis by (simp add: maybe_post_flush_def)
  next
    case (Some url)
    show ?thesis
      using assms Some
      by (auto simp: maybe_post_flush_def now_ms_def Let_def count_def network_only_def
               split: if_splits option.splits prod.splits dest!: post_network_only)
  qed
  then show "state st' = state st" "out_lines st' = out_lines st" "csv_rows st' = csv_rows st"
    "counts st' ''snapshots'' = counts st ''snapshots''" by simp_all
qed

lemma flush_latest_buffer:
  assumes "maybe_post_flush cfg e force st = Some st'"
    and "one_at_a_time cfg" and "send_order cfg = ''latest''"
  shows "buffer st' = buffer st \<or> buffer st' = []"
proof (cases "post_url cfg")
  case None
  with assms show ?thesis by (simp add: maybe_post_flush_def)
next
  case (Some url)
  show ?thesis
    using assms Some
    by (auto simp: maybe_post_flush_def now_ms_def Let_def count_def network_only_def
             split: if_splits option.splits prod.splits dest!: post_network_only)
qed

lemma flush_latest_due:
  assumes "maybe_post_flush cfg e force st = Some st'"
    and "one_at_a_time cfg" and "send_order cfg = ''latest''"
    and "post_enabled cfg" and "flush_due cfg e force st"
  shows "buffer st' = []"
proof -
  obtain url where u: "post_url cfg = Some url" "url \<noteq> []"
    using assms(4) by (auto simp: post_enabled_def split: option.splits)
  show ?thesis
    using assms u
    by (auto simp: maybe_post_flush_def now_ms_def Let_def count_def flush_due_def network_only_def
             split: if_splits option.splits prod.splits dest!: post_network_only)
qed


text \<open>The chain of tests in \<^verbatim>\<open>process_line\<close> is the ordered pattern list of the
  specification: the branch taken is the one of the first pattern that matches.\<close>

lemma process_line_classify:
  "process_line cfg e line st =
     (let st0 = count ''lines'' 1 st
      in case classify line of
           Blank \<Rightarrow> Some (Inr st0)
         | Bracketed \<Rightarrow> then_flush cfg e (Inr st0)
         | Header m \<Rightarrow> then_flush cfg e (on_header m st0)
         | ChannelQuality m \<Rightarrow> then_flush cfg e (on_cqi m st0)
         | DlSchedule m \<Rightarrow> then_flush cfg e (on_dlsch m st0)
         | UlSchedule m \<Rightarrow> then_flush cfg e (on_ulsch m st0)
         | DlBytes m \<Rightarrow> then_flush cfg e (on_dl_bytes e m st0)
         | UlBytes m \<Rightarrow> then_flush cfg e (on_ul_bytes cfg e m st0)
         | Marker m \<Rightarrow> then_flush cfg e (on_lcid cfg e m st0)
         | Unmatched \<Rightarrow> Some (Inr st0))"
  by (simp add: process_line_def classify_def pattern_table_def search2_def Let_def
           split: option.splits)

lemma get_ue_props:
  assumes "get_ue r st = (ue, st1)"
  shows "state st1 r = Some ue" "state st1 = (state st)(r \<mapsto> ue)" "quiet st st1"
    "store_ok st \<Longrightarrow> rnti ue = r" "counts st1 = counts st" "clock_reads st1 = clock_reads st"
  using assms
  by (auto simp: get_ue_def quiet_def store_ok_def init_ue_def split: option.splits)

lemma on_header_effect:
  assumes "on_header m st = Inr st'"
  shows "device_update st m st' \<and> quiet st st'"
proof -
  from assms obtain r where r: "rnti_of m = Inr r"
    by (cases "rnti_of m") (auto simp: on_header_def bind_err_def)
  obtain ue0 st1 where g: "get_ue r st = (ue0, st1)" by (cases "get_ue r st")
  note gp = get_ue_props[OF g]
  from assms r g have "\<exists>ue. st' = count ''header'' 1 (put_ue r ue st1) \<and> rnti ue = rnti ue0"
    by (auto simp: on_header_def bind_err_def Let_def split: sum.splits option.splits)
  then obtain ue where s: "st' = count ''header'' 1 (put_ue r ue st1)" "rnti ue = rnti ue0" by blast
  have "device_update st m st'"
    unfolding device_update_def
    using r s gp(2) g by (intro exI[of _ r] exI[of _ ue]) (simp add: count_def put_ue_def)
  moreover have "quiet st st'" using s gp(3) by (simp add: quiet_def count_def put_ue_def)
  ultimately show ?thesis by simp
qed

lemma on_cqi_effect:
  assumes "on_cqi m st = Inr st'"
  shows "device_update st m st' \<and> quiet st st'"
proof -
  from assms obtain r where r: "rnti_of m = Inr r"
    by (cases "rnti_of m") (auto simp: on_cqi_def bind_err_def)
  obtain ue0 st1 where g: "get_ue r st = (ue0, st1)" by (cases "get_ue r st")
  note gp = get_ue_props[OF g]
  from assms r g have "\<exists>ue. st' = count ''cqi'' 1 (put_ue r ue st1) \<and> rnti ue = rnti ue0"
    by (auto simp: on_cqi_def bind_err_def Let_def split: sum.splits option.splits)
  then obtain ue where s: "st' = count ''cqi'' 1 (put_ue r ue st1)" "rnti ue = rnti ue0" by blast
  have "device_update st m st'"
    unfolding device_update_def
    using r s gp(2) g by (intro exI[of _ r] exI[of _ ue]) (simp add: count_def put_ue_def)
  moreover have "quiet st st'" using s gp(3) by (simp add: quiet_def count_def put_ue_def)
  ultimately show ?thesis by simp
qed

lemma on_dlsch_effect:
  assumes "on_dlsch m st = Inr st'"
  shows "device_update st m st' \<and> quiet st st'"
proof -
  from assms obtain r where r: "rnti_of m = Inr r"
    by (cases "rnti_of m") (auto simp: on_dlsch_def bind_err_def)
  obtain ue0 st1 where g: "get_ue r st = (ue0, st1)" by (cases "get_ue r st")
  note gp = get_ue_props[OF g]
  from assms r g have "\<exists>ue. st' = count ''dlsch'' 1 (put_ue r ue st1) \<and> rnti ue = rnti ue0"
    by (auto simp: on_dlsch_def bind_err_def Let_def split: sum.splits option.splits)
  then obtain ue where s: "st' = count ''dlsch'' 1 (put_ue r ue st1)" "rnti ue = rnti ue0" by blast
  have "device_update st m st'"
    unfolding device_update_def
    using r s gp(2) g by (intro exI[of _ r] exI[of _ ue]) (simp add: count_def put_ue_def)
  moreover have "quiet st st'" using s gp(3) by (simp add: quiet_def count_def put_ue_def)
  ultimately show ?thesis by simp
qed

lemma on_ulsch_effect:
  assumes "on_ulsch m st = Inr st'"
  shows "device_update st m st' \<and> quiet st st'"
proof -
  from assms obtain r where r: "rnti_of m = Inr r"
    by (cases "rnti_of m") (auto simp: on_ulsch_def bind_err_def)
  obtain ue0 st1 where g: "get_ue r st = (ue0, st1)" by (cases "get_ue r st")
  note gp = get_ue_props[OF g]
  from assms r g have "\<exists>ue. st' = count ''ulsch'' 1 (put_ue r ue st1) \<and> rnti ue = rnti ue0"
    by (auto simp: on_ulsch_def bind_err_def Let_def split: sum.splits option.splits)
  then obtain ue where s: "st' = count ''ulsch'' 1 (put_ue r ue st1)" "rnti ue = rnti ue0" by blast
  have "device_update st m st'"
    unfolding device_update_def
    using r s gp(2) g by (intro exI[of _ r] exI[of _ ue]) (simp add: count_def put_ue_def)
  moreover have "quiet st st'" using s gp(3) by (simp add: quiet_def count_def put_ue_def)
  ultimately show ?thesis by simp
qed

lemma on_dl_bytes_effect:
  assumes "on_dl_bytes e m st = Inr st'"
  shows "device_update st m st' \<and> quiet st st'"
proof -
  from assms obtain r where r: "rnti_of m = Inr r"
    by (cases "rnti_of m") (auto simp: on_dl_bytes_def bind_err_def)
  obtain ue0 st1 where g: "get_ue r st = (ue0, st1)" by (cases "get_ue r st")
  note gp = get_ue_props[OF g]
  from assms r g have "\<exists>ue. st' = count ''dl_bytes'' 1 (put_ue r ue (snd (now_ms e st1)))
                         \<and> rnti ue = rnti ue0"
    by (auto simp: on_dl_bytes_def bind_err_def Let_def split: sum.splits option.splits prod.splits)
  then obtain ue where s: "st' = count ''dl_bytes'' 1 (put_ue r ue (snd (now_ms e st1)))"
    "rnti ue = rnti ue0" by blast
  have "device_update st m st'"
    unfolding device_update_def
    using r s gp(2) g
    by (intro exI[of _ r] exI[of _ ue]) (simp add: count_def put_ue_def now_ms_def)
  moreover have "quiet st st'" using s gp(3) by (simp add: quiet_def count_def put_ue_def now_ms_def)
  ultimately show ?thesis by simp
qed

lemma on_ul_bytes_effect:
  assumes "on_ul_bytes cfg e m st = Inr st'"
  shows "device_update st m st' \<and> emission cfg st m st'"
proof -
  from assms obtain r where r: "rnti_of m = Inr r"
    by (cases "rnti_of m") (auto simp: on_ul_bytes_def bind_err_def)
  obtain ue0 st1 where g: "get_ue r st = (ue0, st1)" by (cases "get_ue r st")
  note gp = get_ue_props[OF g]
  from assms r g have "\<exists>ue. st' = emit_snapshot cfg e ue
                               (count ''ul_bytes'' 1 (put_ue r ue (snd (now_ms e st1))))
                         \<and> rnti ue = rnti ue0"
    by (auto simp: on_ul_bytes_def bind_err_def Let_def split: sum.splits option.splits prod.splits)
  then obtain ue where s: "st' = emit_snapshot cfg e ue
                               (count ''ul_bytes'' 1 (put_ue r ue (snd (now_ms e st1))))"
    "rnti ue = rnti ue0" by blast
  let ?mid = "count ''ul_bytes'' 1 (put_ue r ue (snd (now_ms e st1)))"
  have mid: "state ?mid = (state st)(r \<mapsto> ue)" "out_lines ?mid = out_lines st"
    "csv_rows ?mid = csv_rows st" "buffer ?mid = buffer st" "last_post_ms ?mid = last_post_ms st"
    "counts ?mid ''snapshots'' = counts st ''snapshots''"
    using gp(2,3) by (simp_all add: count_def put_ue_def now_ms_def quiet_def)
  have "device_update st m st'"
    unfolding device_update_def
    using r s g mid(1)
    by (intro exI[of _ r] exI[of _ ue]) (simp add: emit_snapshot_effect)
  moreover have "emission cfg st m st'"
    unfolding emission_def
    by (intro exI[of _ r] exI[of _ ue] exI[of _ "clock e (clock_reads ?mid)"])
       (simp add: r s(1) emit_snapshot_effect mid)
  ultimately show ?thesis by simp
qed

lemma on_lcid_effect:
  assumes "on_lcid cfg e m st = Inr st'"
  shows "device_update st m st' \<and> emission cfg st m st'"
proof -
  from assms obtain r where r: "rnti_of m = Inr r"
    by (cases "rnti_of m") (auto simp: on_lcid_def bind_err_def)
  obtain ue st1 where g: "get_ue r st = (ue, st1)" by (cases "get_ue r st")
  note gp = get_ue_props[OF g]
  from assms r g have s: "st' = emit_snapshot cfg e ue (count ''lcid'' 1 st1)"
    by (auto simp: on_lcid_def bind_err_def Let_def)
  let ?mid = "count ''lcid'' 1 st1"
  have mid: "state ?mid = (state st)(r \<mapsto> ue)" "out_lines ?mid = out_lines st"
    "csv_rows ?mid = csv_rows st" "buffer ?mid = buffer st" "last_post_ms ?mid = last_post_ms st"
    "counts ?mid ''snapshots'' = counts st ''snapshots''"
    using gp(2,3) by (simp_all add: count_def quiet_def)
  have "device_update st m st'"
    unfolding device_update_def
    using r s g mid(1)
    by (intro exI[of _ r] exI[of _ ue]) (simp add: emit_snapshot_effect)
  moreover have "emission cfg st m st'"
    unfolding emission_def
    by (intro exI[of _ r] exI[of _ ue] exI[of _ "clock e (clock_reads ?mid)"])
       (simp add: r s emit_snapshot_effect mid)
  ultimately show ?thesis by simp
qed

section \<open>Line processing\<close>

lemma then_flush_Inr:
  assumes "then_flush cfg e r = Some (Inr st')"
  obtains st1 where "r = Inr st1" "maybe_post_flush cfg e False st1 = Some st'"
  using assms by (cases r) (auto simp: then_flush_def)

lemma count_lines_props:
  "state (count ''lines'' 1 st) = state st" "quiet st (count ''lines'' 1 st)"
  "get_ue r (count ''lines'' 1 st) = (fst (get_ue r st), count ''lines'' 1 (snd (get_ue r st)))"
  by (auto simp: count_def quiet_def get_ue_def split: option.splits)

lemma device_update_count:
  "device_update (count ''lines'' 1 st) m st' \<Longrightarrow> device_update st m st'"
  by (auto simp: device_update_def count_lines_props)

lemma emission_count_eq:
  "emission cfg (count ''lines'' 1 st) m st' = emission cfg st m st'"
  by (simp add: emission_def count_def)

lemma emission_count:
  "emission cfg (count ''lines'' 1 st) m st' \<Longrightarrow> emission cfg st m st'"
  by (simp add: emission_count_eq)

lemma quiet_count:
  "quiet (count ''lines'' 1 st) st' \<Longrightarrow> quiet st st'"
  by (simp add: quiet_def count_def)

lemma process_line_mid:
  assumes "process_line cfg e line st = Some (Inr st')"
  shows "\<exists>st1. (st' = st1 \<or> maybe_post_flush cfg e False st1 = Some st')
           \<and> (ignored (classify line) \<longrightarrow> state st1 = state st \<and> quiet st st1)
           \<and> (updates_only (classify line) \<longrightarrow>
                 device_update st (event_caps (classify line)) st1 \<and> quiet st st1)
           \<and> (emits (classify line) \<longrightarrow>
                 device_update st (event_caps (classify line)) st1
                 \<and> emission cfg st (event_caps (classify line)) st1)"
proof -
  let ?st0 = "count ''lines'' 1 st"
  note pl = assms[unfolded process_line_classify Let_def]
  show ?thesis
  proof (cases "classify line")
    case Blank
    with pl have "st' = ?st0" by simp
    with Blank show ?thesis by (intro exI[of _ ?st0]) (simp add: count_lines_props)
  next
    case Bracketed
    with pl have "maybe_post_flush cfg e False ?st0 = Some st'" by (auto elim: then_flush_Inr)
    with Bracketed show ?thesis by (intro exI[of _ ?st0]) (simp add: count_lines_props)
  next
    case Unmatched
    with pl have "st' = ?st0" by simp
    with Unmatched show ?thesis by (intro exI[of _ ?st0]) (simp add: count_lines_props)
  next
    case (Header m)
    with pl obtain st1 where "on_header m ?st0 = Inr st1" "maybe_post_flush cfg e False st1 = Some st'"
      by (auto elim: then_flush_Inr)
    with Header on_header_effect[of m ?st0 st1] show ?thesis
      by (intro exI[of _ st1]) (simp add: device_update_count quiet_count)
  next
    case (ChannelQuality m)
    with pl obtain st1 where "on_cqi m ?st0 = Inr st1" "maybe_post_flush cfg e False st1 = Some st'"
      by (auto elim: then_flush_Inr)
    with ChannelQuality on_cqi_effect[of m ?st0 st1] show ?thesis
      by (intro exI[of _ st1]) (simp add: device_update_count quiet_count)
  next
    case (DlSchedule m)
    with pl obtain st1 where "on_dlsch m ?st0 = Inr st1" "maybe_post_flush cfg e False st1 = Some st'"
      by (auto elim: then_flush_Inr)
    with DlSchedule on_dlsch_effect[of m ?st0 st1] show ?thesis
      by (intro exI[of _ st1]) (simp add: device_update_count quiet_count)
  next
    case (UlSchedule m)
    with pl obtain st1 where "on_ulsch m ?st0 = Inr st1" "maybe_post_flush cfg e False st1 = Some st'"
      by (auto elim: then_flush_Inr)
    with UlSchedule on_ulsch_effect[of m ?st0 st1] show ?thesis
      by (intro exI[of _ st1]) (simp add: device_update_count quiet_count)
  next
    case (DlBytes m)
    with pl obtain st1 where "on_dl_bytes e m ?st0 = Inr st1" "maybe_post_flush cfg e False st1 = Some st'"
      by (auto elim: then_flush_Inr)
    with DlBytes on_dl_bytes_effect[of e m ?st0 st1] show ?thesis
      by (intro exI[of _ st1]) (simp add: device_update_count quiet_count)
  next
    case (UlBytes m)
    with pl obtain st1 where "on_ul_bytes cfg e m ?st0 = Inr st1" "maybe_post_flush cfg e False st1 = Some st'"
      by (auto elim: then_flush_Inr)
    with UlBytes on_ul_bytes_effect[of cfg e m ?st0 st1] show ?thesis
      by (intro exI[of _ st1]) (simp add: device_update_count emission_count)
  next
    case (Marker m)
    with pl obtain st1 where "on_lcid cfg e m ?st0 = Inr st1" "maybe_post_flush cfg e False st1 = Some st'"
      by (auto elim: then_flush_Inr)
    with Marker on_lcid_effect[of cfg e m ?st0 st1] show ?thesis
      by (intro exI[of _ st1]) (simp add: device_update_count emission_count)
  qed
qed

lemma event_kinds: "emits ev \<or> updates_only ev \<or> ignored ev"
  "emits ev \<Longrightarrow> \<not> updates_only ev \<and> \<not> ignored ev"
  "updates_only ev \<Longrightarrow> \<not> ignored ev"
  by (cases ev; simp)+



lemma device_update_store_ok:
  assumes "device_update st m st1" "store_ok st"
  shows "store_ok st1"
proof -
  from assms(1) obtain r ue where
    u: "state st1 = (state st)(r \<mapsto> ue)" "rnti ue = rnti (fst (get_ue r st))"
    by (auto simp: device_update_def)
  have "rnti (fst (get_ue r st)) = r"
    using get_ue_props(4)[of r st "fst (get_ue r st)" "snd (get_ue r st)"] assms(2) by simp
  with u assms(2) show ?thesis by (auto simp: store_ok_def)
qed

lemma process_line_store_ok:
  assumes "process_line cfg e line st = Some (Inr st')" "store_ok st"
  shows "store_ok st'"
proof -
  from process_line_mid[OF assms(1)] obtain st1 where
    fl: "st' = st1 \<or> maybe_post_flush cfg e False st1 = Some st'"
    and ig: "ignored (classify line) \<Longrightarrow> state st1 = state st \<and> quiet st st1"
    and up: "updates_only (classify line) \<Longrightarrow>
                 device_update st (event_caps (classify line)) st1 \<and> quiet st st1"
    and em: "emits (classify line) \<Longrightarrow>
                 device_update st (event_caps (classify line)) st1
                 \<and> emission cfg st (event_caps (classify line)) st1"
    by blast
  have fr: "state st' = state st1" using fl flush_frame(1)[of cfg e False st1 st'] by auto
  have "store_ok st1"
    using event_kinds(1)[of "classify line"] ig up em device_update_store_ok[OF _ assms(2)] assms(2)
    by (auto simp: store_ok_def)
  then show ?thesis using fr by (simp add: store_ok_def)
qed

lemma reachable_store_ok: "reachable cfg e st \<Longrightarrow> store_ok st"
proof (induction rule: reachable.induct)
  case start
  show ?case by (simp add: store_ok_def init_gstate_def)
next
  case (line st l st')
  then show ?case using process_line_store_ok by blast
next
  case (flush st force st')
  then show ?case using flush_frame(1)[of cfg e force st st'] by (simp add: store_ok_def)
qed

text \<open>
  C10, as amended. In every state between operations, however many devices the table
  holds, a line that triggers an emission writes exactly one object to the NDJSON sink; its
  \<^verbatim>\<open>ues\<close> array holds exactly one record, that of the device the line names, with that
  device's identifier; and it writes exactly one row to the CSV sink when that sink is
  configured, and none when it is not.
\<close>

theorem one_device_per_snapshot:
  assumes "reachable cfg e st"
    and "process_line cfg e line st = Some (Inr st')"
    and "emits (classify line)"
  shows "\<exists>ts r ue.
           rnti_of (event_caps (classify line)) = Inr r
           \<and> state st' r = Some ue \<and> rnti ue = r
           \<and> out_lines st' = out_lines st @ [snapshot_payload ts (source cfg) ue]
           \<and> snapshot_ues (snapshot_payload ts (source cfg) ue) = [snapshot_ue ue]
           \<and> dict_get (snapshot_ue ue) ''rnti'' JNone = JInt r
           \<and> csv_rows st' =
               csv_rows st @ (if csv_enabled cfg
                              then [csv_row (JInt ts) (JStr (source cfg)) (snapshot_ue ue)]
                              else [])"
proof -
  let ?m = "event_caps (classify line)"
  from process_line_mid[OF assms(2)] assms(3) obtain st1 where
    fl: "st' = st1 \<or> maybe_post_flush cfg e False st1 = Some st'"
    and du: "device_update st ?m st1" and em: "emission cfg st ?m st1"
    by blast
  have fr: "state st' = state st1" "out_lines st' = out_lines st1" "csv_rows st' = csv_rows st1"
    using fl flush_frame[of cfg e False st1 st'] by auto
  have ok1: "store_ok st1"
    using device_update_store_ok[OF du reachable_store_ok[OF assms(1)]] .
  from em obtain r ue ts where
    e: "rnti_of ?m = Inr r" "state st1 r = Some ue"
       "out_lines st1 = out_lines st @ [snapshot_payload ts (source cfg) ue]"
       "csv_rows st1 = csv_rows st @ (if csv_enabled cfg
                              then [csv_row (JInt ts) (JStr (source cfg)) (snapshot_ue ue)]
                              else [])"
    by (auto simp: emission_def)
  have id: "rnti ue = r" using ok1 e(2) by (simp add: store_ok_def)
  have su: "snapshot_ues (snapshot_payload ts (source cfg) ue) = [snapshot_ue ue]"
    by (simp add: snapshot_ues_def snapshot_payload_def)
  have dg: "dict_get (snapshot_ue ue) ''rnti'' JNone = JInt r"
    using id by (simp add: snapshot_ue_def)
  show ?thesis
    using e id su dg fr by (intro exI[of _ ts] exI[of _ r] exI[of _ ue]) simp
qed

theorem one_device_per_snapshot_witness:
  "\<exists>st' ts ue.
      process_line (default_config\<lparr>csv_enabled := True\<rparr>) server_ok ''UE 64: LCID 4: x'' init_gstate
        = Some (Inr st')
      \<and> state st' 64 = Some ue
      \<and> out_lines st' = [snapshot_payload ts ''OAI'' ue]
      \<and> snapshot_ues (snapshot_payload ts ''OAI'' ue) = [snapshot_ue ue]
      \<and> dict_get (snapshot_ue ue) ''rnti'' JNone = JInt 64
      \<and> csv_rows st' = [csv_row (JInt ts) (JStr ''OAI'') (snapshot_ue ue)]"
proof -
  let ?cfg = "default_config\<lparr>csv_enabled := True\<rparr>" and ?l = "''UE 64: LCID 4: x''"
  have "case process_line ?cfg server_ok ?l init_gstate of Some (Inr _) \<Rightarrow> True | _ \<Rightarrow> False"
    by code_simp
  then obtain s1 where h: "process_line ?cfg server_ok ?l init_gstate = Some (Inr s1)"
    by (auto split: option.splits sum.splits)
  have c: "classify ?l = Marker [(''rnti'', ''64'')]" by code_simp
  have r: "rnti_of [(''rnti'', ''64'')] = Inr 64" by code_simp
  from one_device_per_snapshot[OF reachable.start h] c r
  show ?thesis using h by (auto simp: init_gstate_def default_config_def)
qed

text \<open>With the default settings there is no CSV sink: a marker line emits one NDJSON
  object and no row.\<close>

theorem no_csv_row_without_sink:
  "observed emitted_counts
     (process_line default_config server_ok ''UE 64: LCID 4: x'' init_gstate) = Some (Inr (1, 0))"
  by code_simp

section \<open>The single-slot buffer\<close>

lemma process_line_buffer_latest:
  assumes "process_line cfg e line st = Some (Inr st')"
    and "one_at_a_time cfg" and "send_order cfg = ''latest''"
    and "length (buffer st) \<le> 1"
  shows "length (buffer st') \<le> 1"
proof -
  from process_line_mid[OF assms(1)] obtain st1 where
    fl: "st' = st1 \<or> maybe_post_flush cfg e False st1 = Some st'"
    and ig: "ignored (classify line) \<Longrightarrow> state st1 = state st \<and> quiet st st1"
    and up: "updates_only (classify line) \<Longrightarrow>
                 device_update st (event_caps (classify line)) st1 \<and> quiet st st1"
    and em: "emits (classify line) \<Longrightarrow>
                 device_update st (event_caps (classify line)) st1
                 \<and> emission cfg st (event_caps (classify line)) st1"
    by blast
  have "length (buffer st1) \<le> 1"
  proof (cases "emits (classify line)")
    case True
    from em[OF True] show ?thesis using assms(2,3,4) by (auto simp: emission_def split: if_splits)
  next
    case False
    with event_kinds(1)[of "classify line"] ig up have "quiet st st1" by blast
    then show ?thesis using assms(4) by (simp add: quiet_def)
  qed
  moreover have "buffer st' = buffer st1 \<or> buffer st' = []"
    using fl flush_latest_buffer[of cfg e False st1 st'] assms(2,3) by auto
  ultimately show ?thesis by auto
qed

lemma reachable_buffer_latest:
  assumes "one_at_a_time cfg" and "send_order cfg = ''latest''"
  shows "reachable cfg e st \<Longrightarrow> length (buffer st) \<le> 1"
proof (induction rule: reachable.induct)
  case start
  show ?case by (simp add: init_gstate_def)
next
  case (line st l st')
  then show ?case using process_line_buffer_latest assms by blast
next
  case (flush st force st')
  then show ?case using flush_latest_buffer[of cfg e force st st'] assms by auto
qed

lemma flush_latest_failed:
  assumes "one_at_a_time cfg" and "send_order cfg = ''latest''"
    and "post_url cfg = Some url" and "url \<noteq> []"
    and "buffer st \<noteq> []" and "flush_due cfg e force st"
    and "http_post_json e url (last (buffer st)) (post_timeout cfg) (max_retries cfg)
           (st\<lparr>clock_reads := Suc (clock_reads st), buffer := []\<rparr>) = Some (False, st3)"
  shows "\<exists>st'. maybe_post_flush cfg e force st = Some st' \<and> buffer st' = []
              \<and> last_post_ms st' = last_post_ms st"
proof -
  have n: "network_only (st\<lparr>clock_reads := Suc (clock_reads st), buffer := []\<rparr>) st3"
    using post_network_only[OF assms(7)] .
  show ?thesis
    using assms n
    by (auto simp: maybe_post_flush_def now_ms_def flush_due_def Let_def count_def network_only_def)
qed

text \<open>
  C4. In one-at-a-time mode with send order \<^verbatim>\<open>latest\<close>: in every state between operations
  the buffer holds at most one snapshot; an emitted snapshot becomes the whole buffer,
  whatever the buffer held (when no delivery URL is configured nothing is handed to the
  buffer, which stays as it is, empty in every state between operations); a due flush of a
  non-empty buffer that returns leaves the buffer empty; and when the delivery of the flush
  fails, the flush returns with the buffer empty and the time of the last send unchanged.
\<close>

theorem single_slot_latest:
  assumes "one_at_a_time cfg" and "send_order cfg = ''latest''"
  shows "(reachable cfg e st \<longrightarrow> length (buffer st) \<le> 1)
       \<and> buffer (emit_snapshot cfg e ue st)
           = (if post_enabled cfg
              then [snapshot_payload (clock e (clock_reads st)) (source cfg) ue]
              else buffer st)
       \<and> (post_enabled cfg \<and> buffer st \<noteq> [] \<and> flush_due cfg e force st
            \<and> maybe_post_flush cfg e force st = Some st' \<longrightarrow> buffer st' = [])
       \<and> (post_url cfg = Some url \<and> url \<noteq> [] \<and> buffer st \<noteq> [] \<and> flush_due cfg e force st
            \<and> http_post_json e url (last (buffer st)) (post_timeout cfg) (max_retries cfg)
                  (st\<lparr>clock_reads := Suc (clock_reads st), buffer := []\<rparr>) = Some (False, st3)
          \<longrightarrow> (\<exists>st''. maybe_post_flush cfg e force st = Some st'' \<and> buffer st'' = []
                     \<and> last_post_ms st'' = last_post_ms st))"
proof (intro conjI impI)
  assume "reachable cfg e st"
  then show "length (buffer st) \<le> 1" using reachable_buffer_latest[OF assms] by blast
next
  show "buffer (emit_snapshot cfg e ue st)
           = (if post_enabled cfg
              then [snapshot_payload (clock e (clock_reads st)) (source cfg) ue]
              else buffer st)"
    using assms by (simp add: emit_snapshot_effect)
next
  assume "post_enabled cfg \<and> buffer st \<noteq> [] \<and> flush_due cfg e force st
            \<and> maybe_post_flush cfg e force st = Some st'"
  then show "buffer st' = []" using flush_latest_due[of cfg e force st st'] assms by blast
next
  assume h: "post_url cfg = Some url \<and> url \<noteq> [] \<and> buffer st \<noteq> [] \<and> flush_due cfg e force st
            \<and> http_post_json e url (last (buffer st)) (post_timeout cfg) (max_retries cfg)
                  (st\<lparr>clock_reads := Suc (clock_reads st), buffer := []\<rparr>) = Some (False, st3)"
  then show "\<exists>st''. maybe_post_flush cfg e force st = Some st'' \<and> buffer st'' = []
                     \<and> last_post_ms st'' = last_post_ms st"
    using flush_latest_failed[OF assms, of url st e force st3] by blast
qed

theorem single_slot_latest_witness:
  "(\<exists>st'. process_line (posting_config ''latest'') server_not_found ''UE 64: LCID 4: x''
            init_gstate = Some (Inr st') \<and> length (buffer st') \<le> 1)
   \<and> buffer (emit_snapshot (posting_config ''latest'') server_not_found (init_ue 64)
               (init_gstate\<lparr>buffer := [JInt 7]\<rparr>))
       = [snapshot_payload 1000 ''OAI'' (init_ue 64)]
   \<and> (\<exists>st'. maybe_post_flush (posting_config ''latest'') server_not_found False
               (init_gstate\<lparr>buffer := [JInt 7]\<rparr>) = Some st'
            \<and> buffer st' = [] \<and> last_post_ms st' = 0)"
proof -
  let ?cfg = "posting_config ''latest''" and ?e = server_not_found
  let ?st = "init_gstate\<lparr>buffer := [JInt 7]\<rparr>"
  let ?l = "''UE 64: LCID 4: x''"
  have c: "one_at_a_time ?cfg" "send_order ?cfg = ''latest''"
    by (simp_all add: posting_config_def default_config_def)
  have pe: "post_enabled ?cfg" "post_url ?cfg = Some ''http://h/a''" "source ?cfg = ''OAI''"
    by (simp_all add: posting_config_def default_config_def post_enabled_def)
  note claim = single_slot_latest[OF c]
  have failed: "\<exists>st'. maybe_post_flush ?cfg ?e False s = Some st' \<and> buffer st' = []
                  \<and> last_post_ms st' = last_post_ms s"
    if "buffer s \<noteq> []" "last_post_ms s = 0" for s
  proof -
    have "flush_due ?cfg ?e False s" using that(2) by (simp add: flush_due_def)
    with claim[of ?e s "init_ue 0" False s "''http://h/a''"
               "s\<lparr>clock_reads := Suc (clock_reads s), buffer := [], requests := requests s @
                    [post_request ''http://h/a'' (last (buffer s)) (post_timeout ?cfg)]\<rparr>"]
      pe(2) that(1) post_not_found[of "''http://h/a''" "last (buffer s)" "post_timeout ?cfg"
        "max_retries ?cfg" "s\<lparr>clock_reads := Suc (clock_reads s), buffer := []\<rparr>"]
    show ?thesis by simp
  qed
  have cl: "classify ?l = Marker [(''rnti'', ''64'')]" by code_simp
  have "case on_lcid ?cfg ?e [(''rnti'', ''64'')] (count ''lines'' 1 init_gstate) of
          Inr _ \<Rightarrow> True | Inl _ \<Rightarrow> False"
    by code_simp
  then obtain s1 where s1: "on_lcid ?cfg ?e [(''rnti'', ''64'')] (count ''lines'' 1 init_gstate) = Inr s1"
    by (auto split: sum.splits)
  from on_lcid_effect[OF s1] have "buffer s1 \<noteq> []" "last_post_ms s1 = 0"
    using c pe(1) by (auto simp: emission_def count_def init_gstate_def)
  from failed[OF this] obtain s2 where s2: "maybe_post_flush ?cfg ?e False s1 = Some s2" by blast
  have pl: "process_line ?cfg ?e ?l init_gstate = Some (Inr s2)"
    by (simp add: process_line_classify cl s1 s2 then_flush_def Let_def)
  have r: "reachable ?cfg ?e s2" using reachable.line[OF reachable.start pl] .
  have a: "\<exists>st'. process_line ?cfg ?e ?l init_gstate = Some (Inr st') \<and> length (buffer st') \<le> 1"
    using pl r claim[of ?e s2] by blast
  have b: "buffer (emit_snapshot ?cfg ?e (init_ue 64) ?st) = [snapshot_payload 1000 ''OAI'' (init_ue 64)]"
    using claim[of ?e ?st "init_ue 64"] pe
    by (simp add: server_not_found_def absolute_env_def init_gstate_def)
  have d: "\<exists>st'. maybe_post_flush ?cfg ?e False ?st = Some st' \<and> buffer st' = []
              \<and> last_post_ms st' = 0"
    using failed[of ?st] by (simp add: init_gstate_def)
  show ?thesis using a b d by blast
qed

section \<open>Soundness of the matcher\<close>








section \<open>The captured fields convert\<close>











inductive_cases AltE: "rmatches (Alt r1 r2) w cs cs'"
inductive_cases StarE: "rmatches (Star c) w cs cs'"
inductive_cases LazyStarE: "rmatches (LazyStar c) w cs cs'"
inductive_cases GroupE: "rmatches (Group n r) w cs cs'"
inductive_cases WordBE: "rmatches WordB w cs cs'"

































section \<open>No line raises\<close>












section \<open>The scenario\<close>

text \<open>
  C3, as amended. After the first three lines of the scenario nothing has been emitted;
  the fourth line, the uplink byte counter, emits one snapshot, of one device, whose
  identifier is 64 (the text \<^verbatim>\<open>64\<close> is all digits, so it is read in base 10), with downlink
  \<open>cqi = 10\<close>, \<open>ri = 2\<close>, \<open>mcs = 10\<close>, \<open>packets_ok = 95\<close>, \<open>packets_nok = 5\<close> and
  \<open>drop_rate = 5.0\<close>.
\<close>

theorem scenario_snapshot:
  "observed out_lines (process_lines default_config e (take 3 scenario_lines) init_gstate)
     = Some (Inr [])
   \<and> observed emitted_ids (process_lines default_config e scenario_lines init_gstate)
     = Some (Inr [[JInt 64]])
   \<and> observed (emitted_fields ''downlink''
                 [''cqi'', ''ri'', ''mcs'', ''packets_ok'', ''packets_nok'', ''drop_rate''])
       (process_lines default_config e scenario_lines init_gstate)
     = Some (Inr [[[JInt 10, JInt 2, JInt 10, JInt 95, JInt 5, JFloat 5]]])"
  by code_simp

text \<open>The device identifier of the emitted snapshot is 64, not 100.\<close>

theorem scenario_device_id_is_64:
  "observed emitted_ids (process_lines default_config server_ok scenario_lines init_gstate)
     = Some (Inr [[JInt 64]])
   \<and> observed emitted_ids (process_lines default_config server_ok scenario_lines init_gstate)
     \<noteq> Some (Inr [[JInt 100]])"
proof -
  have "observed emitted_ids (process_lines default_config server_ok scenario_lines init_gstate)
     = Some (Inr [[JInt 64]])"
    by code_simp
  then show ?thesis by simp
qed

end
